theory Spec2Isabelle
  imports Main "HOL-Library.AList" "HOL-Library.Multiset"
begin

section \<open>The LoadBalancer router of kubernetes/loadbalancer.go\<close>

text \<open>
  A shallow embedding of \<^verbatim>\<open>src/kubernetes/loadbalancer.go\<close>. Go structs are records,
  Go maps that are only read or merged key by key are partial functions, a Go map whose
  \<^verbatim>\<open>range\<close> order can change the result is an association list (its entries in the
  order the loop visits them), \<^verbatim>\<open>int32\<close> values are integers with the truncation of
  a conversion written out, and an \<^verbatim>\<open>error\<close> is a value of the datatype
  \<open>error\<close>; a Go result \<^verbatim>\<open>(v, err)\<close> is a pair whose second component is
  \<open>None\<close> for \<^verbatim>\<open>nil\<close>, or a sum where the code never looks at \<^verbatim>\<open>v\<close>
  after a failure.
\<close>

subsection \<open>Data model\<close>

record ObjectMeta =
  Name :: string
  Namespace :: string
  Labels :: "string \<rightharpoonup> string"
  Annotations :: "string \<rightharpoonup> string"

text \<open>\<^verbatim>\<open>intstr.IntOrString\<close>; \<^verbatim>\<open>intstr.FromInt\<close> stores its argument as an int32.\<close>

datatype IntOrString = IntVal int | StrVal string

record ServicePort =
  PortName :: string
  Protocol :: string
  Port :: int
  TargetPort :: IntOrString
  NodePort :: int

record ServiceSpec =
  Type :: string
  Selector :: "string \<rightharpoonup> string"
  Ports :: "ServicePort list"

record LoadBalancerIngress =
  IP :: string
  Hostname :: string

record LoadBalancerStatus =
  Ingress :: "LoadBalancerIngress list"

record ServiceStatus =
  LoadBalancer :: LoadBalancerStatus

record Service =
  ObjectMeta :: ObjectMeta
  Spec :: ServiceSpec
  Status :: ServiceStatus

text \<open>\<^verbatim>\<open>tsuruv1.App\<close>: only \<^verbatim>\<open>Spec.NamespaceName\<close> is read by this file.\<close>

record App =
  NamespaceName :: string

text \<open>\<^verbatim>\<open>router.Opts\<close>: the fields this file reads.\<close>

record Opts =
  Pool :: string
  ExposedPort :: string
  AdditionalOpts :: "string \<rightharpoonup> string"

text \<open>
  \<^verbatim>\<open>LBService\<close> with the fields of the embedded \<^verbatim>\<open>BaseService\<close> that this file
  reads (\<open>Namespace_s\<close>, \<open>Labels_s\<close>, \<open>Annotations_s\<close> for \<^verbatim>\<open>s.Namespace\<close>,
  \<^verbatim>\<open>s.Labels\<close>, \<^verbatim>\<open>s.Annotations\<close>). \<open>OptsAsLabels\<close> is ranged over with
  writes whose order matters, so it is the list of its entries in range order.
\<close>

record LBService =
  Namespace_s :: string
  Labels_s :: "string \<rightharpoonup> string"
  Annotations_s :: "string \<rightharpoonup> string"
  OptsAsLabels :: "(string \<times> string) list"
  OptsAsLabelsDocs :: "string \<rightharpoonup> string"
  PoolLabels :: "string \<rightharpoonup> (string \<rightharpoonup> string)"

subsection \<open>Errors\<close>

text \<open>
  The errors this file creates or tells apart: the package variable
  \<^verbatim>\<open>ErrLoadBalancerNotReady\<close>, an API status error that
  \<^verbatim>\<open>k8sErrors.IsNotFound\<close> accepts, the package's \<^verbatim>\<open>ErrNoService\<close>, an error
  made by \<^verbatim>\<open>fmt.Errorf\<close>, and any other error of a collaborator. Each but the
  first carries its message.
\<close>

datatype error =
    ErrLoadBalancerNotReady
  | StatusNotFound string
  | ErrNoService string
  | Errorf string
  | OtherError string

fun Error :: "error \<Rightarrow> string" where
  "Error ErrLoadBalancerNotReady = ''load balancer is not ready''"
| "Error (StatusNotFound m) = m"
| "Error (ErrNoService m) = m"
| "Error (Errorf m) = m"
| "Error (OtherError m) = m"

fun IsNotFound :: "error option \<Rightarrow> bool" where
  "IsNotFound (Some (StatusNotFound m)) = True"
| "IsNotFound _ = False"

subsection \<open>Constants and formatting\<close>

definition defaultLBPort :: int where
  "defaultLBPort = 80"

definition exposeAllPortsOpt :: string where
  "exposeAllPortsOpt = ''expose-all-ports''"

definition ProtocolTCP :: string where
  "ProtocolTCP = ''TCP''"

definition ServiceTypeLoadBalancer :: string where
  "ServiceTypeLoadBalancer = ''LoadBalancer''"

text \<open>The verb \<^verbatim>\<open>%d\<close> of \<^verbatim>\<open>fmt.Sprintf\<close>: decimal digits, a minus sign when negative.\<close>

definition digit :: "nat \<Rightarrow> char" where
  "digit d = ''0123456789'' ! d"

function fmt_nat :: "int \<Rightarrow> string" where
  "fmt_nat n = (if n < 10 then [digit (nat n)] else fmt_nat (n div 10) @ [digit (nat (n mod 10))])"
  by pat_completeness auto
termination
  by (relation "measure nat") auto

declare fmt_nat.simps [simp del]

definition fmt_d :: "int \<Rightarrow> string" where
  "fmt_d i = (if i < 0 then CHR ''-'' # fmt_nat (- i) else fmt_nat i)"

text \<open>Reading a missing key of a Go \<^verbatim>\<open>map[string]string\<close> gives the empty string.\<close>

definition index :: "(string \<rightharpoonup> string) \<Rightarrow> string \<Rightarrow> string" where
  "index m k = (case m k of None \<Rightarrow> '''' | Some v \<Rightarrow> v)"

definition serviceName :: "string \<Rightarrow> string" where
  "serviceName app = app @ ''-router-lb''"

subsection \<open>Collaborators\<close>

text \<open>
  What \<^verbatim>\<open>loadbalancer.go\<close> calls and does not define: constants and methods of
  \<^verbatim>\<open>BaseService\<close> and of the package \<^verbatim>\<open>router\<close>. They are parameters of the model.
  \<open>getClient\<close> is \<open>None\<close> when a client is returned; \<open>getApp\<close> and
  \<open>getWebService\<close> return Go pairs, since the code tests both the pointer and the
  error; \<open>swapMeta\<close> is \<^verbatim>\<open>BaseService.swap\<close>, which rewrites two
  \<^verbatim>\<open>ObjectMeta\<close> in place and here returns both.
\<close>

record deps =
  router_ExposedPort :: string
  appLabel :: string
  managedServiceLabel :: string
  appPoolLabel :: string
  getClient :: "error option"
  getAppNamespace :: "string \<Rightarrow> error + string"
  getApp :: "string \<Rightarrow> App option \<times> error option"
  getWebService :: "string \<Rightarrow> Service option \<times> error option"
  getAppServicePort :: "App option \<Rightarrow> int"
  isSwapped :: "ObjectMeta \<Rightarrow> string \<times> bool"
  swapMeta :: "ObjectMeta \<Rightarrow> ObjectMeta \<Rightarrow> ObjectMeta \<times> ObjectMeta"
  OptsFromAnnotations :: "ObjectMeta \<Rightarrow> Opts \<times> error option"
  ToAnnotations :: "Opts \<Rightarrow> (string \<rightharpoonup> string) \<times> error option"

subsection \<open>The cluster\<close>

text \<open>
  Modelled from the spec: the cluster client, "get/create/update resource by (kind,
  namespace, name), not-found as a distinguishable failure". The cluster holds the
  services by namespace and name. Any call can fail: \<open>script\<close> lists the outcomes of
  the calls to come (\<open>Some e\<close>: this call fails with \<open>e\<close> and changes nothing;
  \<open>None\<close>, or an exhausted script: it is served). \<open>writes\<close> records every update
  and create request received, served or not, oldest first.
\<close>

datatype request = UpdateCall string Service | CreateCall string Service

record cluster =
  services :: "string \<times> string \<rightharpoonup> Service"
  script :: "error option list"
  writes :: "request list"

definition next_outcome :: "cluster \<Rightarrow> error option \<times> cluster" where
  "next_outcome c =
     (case script c of [] \<Rightarrow> (None, c) | f # fs \<Rightarrow> (f, c\<lparr>script := fs\<rparr>))"

definition Services_Get :: "string \<Rightarrow> string \<Rightarrow> cluster \<Rightarrow> (error + Service) \<times> cluster" where
  "Services_Get ns name c =
     (let (f, c1) = next_outcome c in
      case f of
        Some e \<Rightarrow> (Inl e, c1)
      | None \<Rightarrow>
          (case services c1 (ns, name) of
             None \<Rightarrow> (Inl (StatusNotFound (''services '' @ name @ '' not found'')), c1)
           | Some svc \<Rightarrow> (Inr svc, c1)))"

definition Services_Update :: "string \<Rightarrow> Service \<Rightarrow> cluster \<Rightarrow> error option \<times> cluster" where
  "Services_Update ns svc c =
     (let (f, c1) = next_outcome c;
          c2 = c1\<lparr>writes := writes c1 @ [UpdateCall ns svc]\<rparr> in
      case f of
        Some e \<Rightarrow> (Some e, c2)
      | None \<Rightarrow>
          (case services c2 (ns, Name (ObjectMeta svc)) of
             None \<Rightarrow>
               (Some (StatusNotFound (''services '' @ Name (ObjectMeta svc) @ '' not found'')), c2)
           | Some old \<Rightarrow>
               (None, c2\<lparr>services := (services c2)((ns, Name (ObjectMeta svc)) \<mapsto> svc)\<rparr>)))"

definition Services_Create :: "string \<Rightarrow> Service \<Rightarrow> cluster \<Rightarrow> error option \<times> cluster" where
  "Services_Create ns svc c =
     (let (f, c1) = next_outcome c;
          c2 = c1\<lparr>writes := writes c1 @ [CreateCall ns svc]\<rparr> in
      case f of
        Some e \<Rightarrow> (Some e, c2)
      | None \<Rightarrow>
          (case services c2 (ns, Name (ObjectMeta svc)) of
             Some old \<Rightarrow>
               (Some (OtherError (''services '' @ Name (ObjectMeta svc) @ '' already exists'')), c2)
           | None \<Rightarrow>
               (None, c2\<lparr>services := (services c2)((ns, Name (ObjectMeta svc)) \<mapsto> svc)\<rparr>)))"

subsection \<open>getLBService, isReady, Get, SupportedOptions\<close>

definition getLBService :: "deps \<Rightarrow> string \<Rightarrow> cluster \<Rightarrow> (error + Service) \<times> cluster" where
  "getLBService d appName c =
     (case getClient d of
        Some err \<Rightarrow> (Inl err, c)
      | None \<Rightarrow>
          (case getAppNamespace d appName of
             Inl err \<Rightarrow> (Inl err, c)
           | Inr ns \<Rightarrow> Services_Get ns (serviceName appName) c))"

definition isReady :: "Service \<Rightarrow> bool" where
  "isReady service =
     (case Ingress (LoadBalancer (Status service)) of
        [] \<Rightarrow> False
      | lb # _ \<Rightarrow> IP lb \<noteq> '''')"

text \<open>
  The address that \<^verbatim>\<open>Get\<close> computes from the fetched service: lines 139 to 150.
\<close>

definition address :: "Service \<Rightarrow> string" where
  "address service =
     (case Ingress (LoadBalancer (Status service)) of
        [] \<Rightarrow> ''''
      | lb # _ \<Rightarrow>
          (let addr = IP lb;
               addr = (case Ports (Spec service) of
                         [] \<Rightarrow> addr
                       | p # _ \<Rightarrow> addr @ '':'' @ fmt_d (Port p))
           in if Hostname lb \<noteq> '''' then Hostname lb else addr))"

definition Get :: "deps \<Rightarrow> string \<Rightarrow> cluster \<Rightarrow> ((string \<rightharpoonup> string) option \<times> error option) \<times> cluster" where
  "Get d appName c =
     (case getLBService d appName c of
        (Inl err, c1) \<Rightarrow> ((None, Some err), c1)
      | (Inr service, c1) \<Rightarrow> ((Some [''address'' \<mapsto> address service], None), c1))"

text \<open>The body of the loop of \<^verbatim>\<open>SupportedOptions\<close>, lines 161 to 164.\<close>

definition addOption :: "(string \<rightharpoonup> string) \<Rightarrow> string \<times> string \<Rightarrow> (string \<rightharpoonup> string) \<Rightarrow> (string \<rightharpoonup> string)" where
  "addOption docs = (\<lambda>(k, v) opts.
     let opts = opts(k \<mapsto> v) in
     if index docs k \<noteq> '''' then opts(k \<mapsto> index docs k) else opts)"

definition SupportedOptions :: "deps \<Rightarrow> LBService \<Rightarrow> (string \<rightharpoonup> string) \<times> error option" where
  "SupportedOptions d s =
     (let opts = [router_ExposedPort d \<mapsto> '''',
                  exposeAllPortsOpt \<mapsto>
                    ''Expose all ports used by application in the Load Balancer. Defaults to false.''];
          opts = fold (addOption (OptsAsLabelsDocs s)) (OptsAsLabels s) opts
      in (opts, None))"

subsection \<open>Swap\<close>

text \<open>
  \<^verbatim>\<open>LBService.swap\<close> exchanges the selectors and lets \<^verbatim>\<open>BaseService.swap\<close> rewrite
  the two \<^verbatim>\<open>ObjectMeta\<close>; both services are returned.
\<close>

definition swap :: "deps \<Rightarrow> Service \<Rightarrow> Service \<Rightarrow> Service \<times> Service" where
  "swap d srcServ dstServ =
     (let (srcMeta, dstMeta) = swapMeta d (ObjectMeta srcServ) (ObjectMeta dstServ) in
      (srcServ\<lparr>ObjectMeta := srcMeta,
               Spec := (Spec srcServ)\<lparr>Selector := Selector (Spec dstServ)\<rparr>\<rparr>,
       dstServ\<lparr>ObjectMeta := dstMeta,
               Spec := (Spec dstServ)\<lparr>Selector := Selector (Spec srcServ)\<rparr>\<rparr>))"

definition rollbackError :: "error \<Rightarrow> error \<Rightarrow> error" where
  "rollbackError err errRollback =
     Errorf (''failed to rollback swap '' @ Error err @ '': '' @ Error errRollback)"

definition Swap :: "deps \<Rightarrow> string \<Rightarrow> string \<Rightarrow> cluster \<Rightarrow> error option \<times> cluster" where
  "Swap d appSrc appDst c =
     (case getLBService d appSrc c of
        (Inl err, c1) \<Rightarrow> (Some err, c1)
      | (Inr srcServ, c1) \<Rightarrow>
     if \<not> isReady srcServ then (Some ErrLoadBalancerNotReady, c1) else
     (case getLBService d appDst c1 of
        (Inl err, c2) \<Rightarrow> (Some err, c2)
      | (Inr dstServ, c2) \<Rightarrow>
     if \<not> isReady dstServ then (Some ErrLoadBalancerNotReady, c2) else
     (case swap d srcServ dstServ of (srcServ, dstServ) \<Rightarrow>
     (case getClient d of
        Some err \<Rightarrow> (Some err, c2)
      | None \<Rightarrow>
     (case getAppNamespace d appSrc of
        Inl err \<Rightarrow> (Some err, c2)
      | Inr ns \<Rightarrow>
     (case getAppNamespace d appDst of
        Inl err \<Rightarrow> (Some err, c2)
      | Inr ns2 \<Rightarrow>
     if ns \<noteq> ns2
     then (Some (Errorf (''unable to swap apps with different namespaces: '' @ ns @ '' != '' @ ns2)), c2)
     else
     (case Services_Update ns srcServ c2 of
        (Some err, c3) \<Rightarrow> (Some err, c3)
      | (None, c3) \<Rightarrow>
     (case Services_Update ns dstServ c3 of
        (None, c4) \<Rightarrow> (None, c4)
      | (Some err, c4) \<Rightarrow>
     (case swap d srcServ dstServ of (srcServ, dstServ) \<Rightarrow>
     (case Services_Update ns srcServ c4 of
        (Some errRollback, c5) \<Rightarrow> (Some (rollbackError err errRollback), c5)
      | (None, c5) \<Rightarrow> (Some err, c5)))))))))))"

subsection \<open>Labels and annotations\<close>

text \<open>
  \<^verbatim>\<open>mergeMaps\<close>: the inner loop sets every key of \<open>entry\<close> that \<open>result\<close> does not
  hold yet; the keys of one Go map are distinct, so the order of that loop is immaterial
  and its effect is \<open>mergeEntry\<close>.
\<close>

definition mergeEntry :: "(string \<rightharpoonup> string) \<Rightarrow> (string \<rightharpoonup> string) \<Rightarrow> (string \<rightharpoonup> string)" where
  "mergeEntry result entry = (\<lambda>k. case result k of Some v \<Rightarrow> Some v | None \<Rightarrow> entry k)"

definition mergeMaps :: "(string \<rightharpoonup> string) list \<Rightarrow> (string \<rightharpoonup> string)" where
  "mergeMaps entries = foldl mergeEntry Map.empty entries"

text \<open>
  Lines 267 to 272: the labels of the options the caller gave; \<open>addOptLabel\<close> is the
  body of the loop, run over \<open>OptsAsLabels\<close> in range order.
\<close>

definition addOptLabel :: "Opts \<Rightarrow> string \<times> string \<Rightarrow> (string \<rightharpoonup> string) \<Rightarrow> (string \<rightharpoonup> string)" where
  "addOptLabel opts = (\<lambda>(optName, labelName) optsLabels.
     case AdditionalOpts opts optName of
       Some optsValue \<Rightarrow> optsLabels(labelName \<mapsto> optsValue)
     | None \<Rightarrow> optsLabels)"

definition optsLabelsOf :: "LBService \<Rightarrow> Opts \<Rightarrow> (string \<rightharpoonup> string)" where
  "optsLabelsOf s opts = fold (addOptLabel opts) (OptsAsLabels s) Map.empty"

text \<open>Reading a missing key of a map of maps gives the nil map, which ranges as an empty one.\<close>

definition poolLabelsOf :: "LBService \<Rightarrow> string \<Rightarrow> (string \<rightharpoonup> string)" where
  "poolLabelsOf s pool = (case PoolLabels s pool of None \<Rightarrow> Map.empty | Some m \<Rightarrow> m)"

definition reservedLabels :: "deps \<Rightarrow> string \<Rightarrow> Opts \<Rightarrow> (string \<rightharpoonup> string)" where
  "reservedLabels d appName opts =
     [appLabel d \<mapsto> appName, managedServiceLabel d \<mapsto> ''true'', appPoolLabel d \<mapsto> Pool opts]"

definition fillLabelsAndAnnotations ::
  "deps \<Rightarrow> LBService \<Rightarrow> Service \<Rightarrow> string \<Rightarrow> Service option \<Rightarrow> Opts \<Rightarrow> Service \<times> error option" where
  "fillLabelsAndAnnotations d s svc appName webService opts =
     (let optsLabels = optsLabelsOf s opts;
          labels = [poolLabelsOf s (Pool opts), optsLabels, Labels_s s,
                    reservedLabels d appName opts]
      in case ToAnnotations d opts of
           (optsAnnotations, Some err) \<Rightarrow> (svc, Some err)
         | (optsAnnotations, None) \<Rightarrow>
             (let annotations = [Annotations_s s, optsAnnotations];
                  labels = (case webService of
                              Some w \<Rightarrow> labels @ [Labels (ObjectMeta w)]
                            | None \<Rightarrow> labels);
                  annotations = (case webService of
                                   Some w \<Rightarrow> annotations @ [Annotations (ObjectMeta w)]
                                 | None \<Rightarrow> annotations)
              in (svc\<lparr>ObjectMeta := (ObjectMeta svc)\<lparr>Labels := mergeMaps labels,
                                                      Annotations := mergeMaps annotations\<rparr>\<rparr>,
                  None)))"

subsection \<open>strconv and integer conversion\<close>

text \<open>
  \<^verbatim>\<open>strconv.Atoi\<close> and \<^verbatim>\<open>strconv.ParseBool\<close> of the Go standard library, as
  documented, for a 64-bit \<^verbatim>\<open>int\<close>: \<^verbatim>\<open>Atoi(s)\<close> is \<^verbatim>\<open>ParseInt(s, 10, 0)\<close>; a
  string that is not an optional sign and decimal digits gives 0 and a syntax error; a
  numeral out of range gives the nearest representable value and a range error.
  \<^verbatim>\<open>ParseUint\<close> reads the digits from the left and stops at the first overflow.
\<close>

datatype NumError = ErrSyntax | ErrRange

definition isDigit :: "char \<Rightarrow> bool" where
  "isDigit c = (c \<in> set ''0123456789'')"

definition digitVal :: "char \<Rightarrow> int" where
  "digitVal c = of_char c - 48"

definition maxUint64 :: int where
  "maxUint64 = 2 ^ 64 - 1"

fun parseDigits :: "string \<Rightarrow> int \<Rightarrow> int \<times> NumError option" where
  "parseDigits [] n = (n, None)"
| "parseDigits (c # cs) n =
     (if \<not> isDigit c then (0, Some ErrSyntax)
      else if n \<ge> maxUint64 div 10 + 1 then (maxUint64, Some ErrRange)
      else if n * 10 + digitVal c > maxUint64 then (maxUint64, Some ErrRange)
      else parseDigits cs (n * 10 + digitVal c))"

definition ParseUint :: "string \<Rightarrow> int \<times> NumError option" where
  "ParseUint s = (if s = [] then (0, Some ErrSyntax) else parseDigits s 0)"

definition ParseInt :: "string \<Rightarrow> int \<times> NumError option" where
  "ParseInt s =
     (if s = [] then (0, Some ErrSyntax)
      else
        let neg = (hd s = CHR ''-'');
            s1 = (if hd s = CHR ''+'' \<or> hd s = CHR ''-'' then tl s else s);
            (un, err) = ParseUint s1
        in if err \<noteq> None \<and> err \<noteq> Some ErrRange then (0, err)
           else if \<not> neg \<and> un \<ge> 2 ^ 63 then (2 ^ 63 - 1, Some ErrRange)
           else if neg \<and> un > 2 ^ 63 then (- (2 ^ 63), Some ErrRange)
           else (if neg then - un else un, None))"

definition Atoi :: "string \<Rightarrow> int \<times> NumError option" where
  "Atoi s = ParseInt s"

definition ParseBool :: "string \<Rightarrow> bool \<times> NumError option" where
  "ParseBool str =
     (if str \<in> set [''1'', ''t'', ''T'', ''TRUE'', ''true'', ''True''] then (True, None)
      else if str \<in> set [''0'', ''f'', ''F'', ''FALSE'', ''false'', ''False''] then (False, None)
      else (False, Some ErrSyntax))"

text \<open>The conversion \<^verbatim>\<open>int32(n)\<close> keeps the low 32 bits, read as a signed number.\<close>

definition int32 :: "int \<Rightarrow> int" where
  "int32 n = (n + 2 ^ 31) mod 2 ^ 32 - 2 ^ 31"

definition FromInt :: "int \<Rightarrow> IntOrString" where
  "FromInt val = IntVal (int32 val)"

subsection \<open>portsForService\<close>

text \<open>
  \<open>wantedPorts\<close> maps a port number to a pointer: to the \<^verbatim>\<open>ServicePort\<close> allocated
  at line 312, or to an element \<^verbatim>\<open>&basePorts[i]\<close> of the backend service's own port
  slice (\<^verbatim>\<open>basePorts := baseSvc.Spec.Ports\<close> shares its array). The store holds the
  objects the pointers refer to, so a write through a pointer is a write to the store.
  \<open>existingPorts\<close> points into \<^verbatim>\<open>svc.Spec.Ports\<close>, which is only read: it holds the
  values (\<^verbatim>\<open>svc\<close> and \<^verbatim>\<open>baseSvc\<close> are two objects, fetched by \<^verbatim>\<open>syncLB\<close> one after
  the other). \<open>wantedPorts\<close> is the list of its entries in insertion order, which is the
  order the model ranges over it; \<open>portsForService_order\<close> below shows that any other
  order gives the same result.
\<close>

datatype portRef = NewPort | BasePort nat

record portStore =
  newPort :: ServicePort
  basePorts :: "ServicePort list"

definition deref :: "portStore \<Rightarrow> portRef \<Rightarrow> ServicePort" where
  "deref st r = (case r of NewPort \<Rightarrow> newPort st | BasePort i \<Rightarrow> basePorts st ! i)"

definition setNodePort :: "portRef \<Rightarrow> int \<Rightarrow> portStore \<Rightarrow> portStore" where
  "setNodePort r v st =
     (case r of
        NewPort \<Rightarrow> st\<lparr>newPort := (newPort st)\<lparr>NodePort := v\<rparr>\<rparr>
      | BasePort i \<Rightarrow> st\<lparr>basePorts := (basePorts st)[i := (basePorts st ! i)\<lparr>NodePort := v\<rparr>]\<rparr>)"

text \<open>Lines 306 to 309: a later port of the same number replaces an earlier one.\<close>

definition existingPortsOf :: "Service \<Rightarrow> (int \<rightharpoonup> ServicePort)" where
  "existingPortsOf svc = fold (\<lambda>port m. m(Port port \<mapsto> port)) (Ports (Spec svc)) Map.empty"

text \<open>Lines 324 to 329, for the index \<open>i\<close> (always below the length of \<open>basePorts\<close>).\<close>

definition exposeBasePort ::
  "int \<Rightarrow> nat \<Rightarrow> (int \<times> portRef) list \<times> portStore \<Rightarrow> (int \<times> portRef) list \<times> portStore" where
  "exposeBasePort additionalPort i = (\<lambda>(wantedPorts, st).
     if Port (basePorts st ! i) = int32 additionalPort then (wantedPorts, st)
     else
       let st = setNodePort (BasePort i) 0 st
       in (AList.update (Port (basePorts st ! i)) (BasePort i) wantedPorts, st))"

text \<open>Lines 335 to 339, for one entry of \<open>wantedPorts\<close>.\<close>

definition collectPort ::
  "(int \<rightharpoonup> ServicePort) \<Rightarrow> int \<times> portRef \<Rightarrow> ServicePort list \<times> portStore \<Rightarrow> ServicePort list \<times> portStore" where
  "collectPort existingPorts = (\<lambda>(key, wantedPort) (ports, st).
     let st = (case existingPorts (Port (deref st wantedPort)) of
                 Some existingPort \<Rightarrow> setNodePort wantedPort (NodePort existingPort) st
               | None \<Rightarrow> st)
     in (ports @ [deref st wantedPort], st))"

definition primaryPort :: "Opts \<Rightarrow> int" where
  "primaryPort opts =
     (let additionalPort = fst (Atoi (ExposedPort opts))
      in if additionalPort = 0 then defaultLBPort else additionalPort)"

text \<open>The \<^verbatim>\<open>ServicePort\<close> of lines 312 to 317; its \<^verbatim>\<open>NodePort\<close> is the zero value.\<close>

definition newServicePort :: "deps \<Rightarrow> App option \<Rightarrow> int \<Rightarrow> ServicePort" where
  "newServicePort d app additionalPort =
     \<lparr>PortName = ''port-'' @ fmt_d additionalPort,
      Protocol = ProtocolTCP,
      Port = int32 additionalPort,
      TargetPort = FromInt (getAppServicePort d app),
      NodePort = 0\<rparr>"

text \<open>
  The state of lines 311 to 331: the wanted ports and the store, before the last loop.
\<close>

definition wantedPortsOf ::
  "deps \<Rightarrow> App option \<Rightarrow> Opts \<Rightarrow> Service option \<Rightarrow> (int \<times> portRef) list \<times> portStore" where
  "wantedPortsOf d app opts baseSvc =
     (let additionalPort = primaryPort opts;
          st = \<lparr>newPort = newServicePort d app additionalPort,
                basePorts = (case baseSvc of None \<Rightarrow> [] | Some b \<Rightarrow> Ports (Spec b))\<rparr>;
          wantedPorts = [(int32 additionalPort, NewPort)];
          allPorts = fst (ParseBool (index (AdditionalOpts opts) exposeAllPortsOpt))
      in if allPorts \<and> baseSvc \<noteq> None
         then fold (exposeBasePort additionalPort) [0..<length (basePorts st)] (wantedPorts, st)
         else (wantedPorts, st))"

text \<open>
  \<open>portsForService\<close> returns the Go result and, as the effect of its writes through
  \<^verbatim>\<open>basePorts\<close>, the backend service as it is after the call. \<^verbatim>\<open>sort.Slice\<close> is not
  stable; the port numbers of the collected ports are distinct, so the sorted sequence
  is the one \<open>sort_key\<close> gives.
\<close>

definition portsForService ::
  "deps \<Rightarrow> Service \<Rightarrow> App option \<Rightarrow> Opts \<Rightarrow> Service option
     \<Rightarrow> (ServicePort list \<times> error option) \<times> Service option" where
  "portsForService d svc app opts baseSvc =
     (let existingPorts = existingPortsOf svc;
          (wantedPorts, st) = wantedPortsOf d app opts baseSvc;
          (ports, st) = fold (collectPort existingPorts) wantedPorts ([], st)
      in ((sort_key Port ports, None),
          map_option (\<lambda>b. b\<lparr>Spec := (Spec b)\<lparr>Ports := basePorts st\<rparr>\<rparr>) baseSvc))"

subsection \<open>syncLB, Create, Update\<close>

definition newLBService :: "LBService \<Rightarrow> string \<Rightarrow> App option \<Rightarrow> Service" where
  "newLBService s appName app =
     \<lparr>ObjectMeta = \<lparr>Name = serviceName appName,
                    Namespace = (case app of None \<Rightarrow> Namespace_s s | Some a \<Rightarrow> NamespaceName a),
                    Labels = Map.empty, Annotations = Map.empty\<rparr>,
      Spec = \<lparr>Type = ServiceTypeLoadBalancer, Selector = Map.empty, Ports = []\<rparr>,
      Status = \<lparr>LoadBalancer = \<lparr>Ingress = []\<rparr>\<rparr>\<rparr>"

fun isErrNoService :: "error option \<Rightarrow> bool" where
  "isErrNoService (Some (ErrNoService m)) = True"
| "isErrNoService _ = False"

text \<open>
  Lines 202 to 220: the balancer resource that the sync works on, fetched or, when the
  cluster has none, built in memory.
\<close>

definition fetchOrNew ::
  "deps \<Rightarrow> LBService \<Rightarrow> string \<Rightarrow> App option \<Rightarrow> cluster \<Rightarrow> (error + Service) \<times> cluster" where
  "fetchOrNew d s appName app c =
     (case getLBService d appName c of
        (Inr lbService, c1) \<Rightarrow> (Inr lbService, c1)
      | (Inl err, c1) \<Rightarrow>
          if \<not> IsNotFound (Some err) then (Inl err, c1)
          else (Inr (newLBService s appName app), c1))"

text \<open>
  \<open>syncLB\<close> returns the error, the backend service object as the call leaves it
  (\<open>None\<close> when none was fetched), and the cluster.
\<close>

definition syncLB ::
  "deps \<Rightarrow> LBService \<Rightarrow> string \<Rightarrow> Opts option \<Rightarrow> bool \<Rightarrow> cluster
     \<Rightarrow> (error option \<times> Service option) \<times> cluster" where
  "syncLB d s appName opts isUpdate c =
     (case getApp d appName of
        (app, Some err) \<Rightarrow> ((Some err, None), c)
      | (app, None) \<Rightarrow>
     (case fetchOrNew d s appName app c of
        (Inl err, c1) \<Rightarrow> ((Some err, None), c1)
      | (Inr lbService, c1) \<Rightarrow>
     if snd (isSwapped d (ObjectMeta lbService)) then ((None, None), c1) else
     (case (case opts of
              None \<Rightarrow> OptsFromAnnotations d (ObjectMeta lbService)
            | Some given \<Rightarrow> (given, None)) of
        (opts, Some err) \<Rightarrow> ((Some err, None), c1)
      | (opts, None) \<Rightarrow>
     (case getWebService d appName of (webService, err) \<Rightarrow>
     if err \<noteq> None \<and> (isUpdate \<or> \<not> isErrNoService err) then ((err, webService), c1) else
     (let lbService = (case webService of
                         None \<Rightarrow> lbService
                       | Some w \<Rightarrow> lbService\<lparr>Spec := (Spec lbService)\<lparr>Selector := Selector (Spec w)\<rparr>\<rparr>)
      in
     (case fillLabelsAndAnnotations d s lbService appName webService opts of
        (lbService, Some err) \<Rightarrow> ((Some err, webService), c1)
      | (lbService, None) \<Rightarrow>
     (case portsForService d lbService app opts webService of
        ((ports, Some err), webService) \<Rightarrow> ((Some err, webService), c1)
      | ((ports, None), webService) \<Rightarrow>
     (let lbService = lbService\<lparr>Spec := (Spec lbService)\<lparr>Ports := ports\<rparr>\<rparr> in
     (case getClient d of
        Some err \<Rightarrow> ((Some err, webService), c1)
      | None \<Rightarrow>
     (case Services_Update (Namespace (ObjectMeta lbService)) lbService c1 of (err, c2) \<Rightarrow>
     if IsNotFound err
     then (case Services_Create (Namespace (ObjectMeta lbService)) lbService c2 of
             (err, c3) \<Rightarrow> ((err, webService), c3))
     else ((err, webService), c2)))))))))))"

definition Create :: "deps \<Rightarrow> LBService \<Rightarrow> string \<Rightarrow> Opts \<Rightarrow> cluster \<Rightarrow> (error option \<times> Service option) \<times> cluster" where
  "Create d s appName opts c = syncLB d s appName (Some opts) False c"

definition Update :: "deps \<Rightarrow> LBService \<Rightarrow> string \<Rightarrow> cluster \<Rightarrow> (error option \<times> Service option) \<times> cluster" where
  "Update d s appName c = syncLB d s appName None True c"

subsection \<open>Describing the effect of portsForService\<close>

text \<open>
  Notions that describe the effect of \<open>portsForService\<close>: a pointer is valid in a
  store when it refers to an object of the store; \<open>carried\<close> is a wanted port after
  lines 335 to 338; \<open>collectStore\<close> is the store after them; \<open>zeroed\<close> is a backend
  port after lines 324 to 328.
\<close>

definition validRef :: "portStore \<Rightarrow> portRef \<Rightarrow> bool" where
  "validRef st r = (case r of NewPort \<Rightarrow> True | BasePort i \<Rightarrow> i < length (basePorts st))"

definition carried :: "(int \<rightharpoonup> ServicePort) \<Rightarrow> ServicePort \<Rightarrow> ServicePort" where
  "carried existingPorts q =
     (case existingPorts (Port q) of
        Some existingPort \<Rightarrow> q\<lparr>NodePort := NodePort existingPort\<rparr>
      | None \<Rightarrow> q)"

definition collectStore :: "(int \<rightharpoonup> ServicePort) \<Rightarrow> portRef \<Rightarrow> portStore \<Rightarrow> portStore" where
  "collectStore existingPorts r st =
     (case existingPorts (Port (deref st r)) of
        Some existingPort \<Rightarrow> setNodePort r (NodePort existingPort) st
      | None \<Rightarrow> st)"

definition zeroed :: "int \<Rightarrow> ServicePort \<Rightarrow> ServicePort" where
  "zeroed p b = (if Port b = p then b else b\<lparr>NodePort := 0\<rparr>)"

text \<open>
  What holds of \<open>wantedPorts\<close> after the indices below \<open>m\<close> of the backend ports
  \<open>bs\<close>: its keys are distinct, the primary port \<open>p\<close> refers to the new port, every
  other entry refers to the last backend port of its number, and every backend port
  number but \<open>p\<close> is a key.
\<close>

definition wantedInv :: "int \<Rightarrow> ServicePort list \<Rightarrow> nat \<Rightarrow> (int \<times> portRef) list \<Rightarrow> bool" where
  "wantedInv p bs m w \<longleftrightarrow>
     distinct (map fst w) \<and> (p, NewPort) \<in> set w \<and>
     (\<forall>(k, r) \<in> set w.
        case r of
          NewPort \<Rightarrow> k = p
        | BasePort i \<Rightarrow> i < m \<and> Port (bs ! i) = k \<and> k \<noteq> p \<and>
                        (\<forall>j. i < j \<and> j < m \<longrightarrow> Port (bs ! j) \<noteq> k)) \<and>
     (\<forall>i < m. Port (bs ! i) \<noteq> p \<longrightarrow> Port (bs ! i) \<in> fst ` set w)"

text \<open>
  Whether line 321 holds, and the backend ports that line 322 reads.
\<close>

definition exposeAll :: "Opts \<Rightarrow> Service option \<Rightarrow> bool" where
  "exposeAll opts baseSvc \<longleftrightarrow>
     fst (ParseBool (index (AdditionalOpts opts) exposeAllPortsOpt)) \<and> baseSvc \<noteq> None"

definition basePortsOf :: "Service option \<Rightarrow> ServicePort list" where
  "basePortsOf baseSvc = (case baseSvc of None \<Rightarrow> [] | Some b \<Rightarrow> Ports (Spec b))"

text \<open>
  The node port of the backend port \<open>i\<close> after \<open>portsForService\<close> with all ports
  exposed: unchanged when its number is the primary port \<open>p\<close>, 0 when a later backend
  port has the same number, and otherwise the node port of the balancer's existing port
  of that number, or 0 when there is none.
\<close>

definition nodePortAfter :: "int \<Rightarrow> (int \<rightharpoonup> ServicePort) \<Rightarrow> ServicePort list \<Rightarrow> nat \<Rightarrow> int" where
  "nodePortAfter p existingPorts bs i =
     (if Port (bs ! i) = p then NodePort (bs ! i)
      else if Port (bs ! i) \<in> Port ` set (drop (Suc i) bs) then 0
      else (case existingPorts (Port (bs ! i)) of
              Some existingPort \<Rightarrow> NodePort existingPort
            | None \<Rightarrow> 0))"

definition backendPortsAfter :: "int \<Rightarrow> (int \<rightharpoonup> ServicePort) \<Rightarrow> ServicePort list \<Rightarrow> ServicePort list" where
  "backendPortsAfter p existingPorts bs =
     map (\<lambda>i. (bs ! i)\<lparr>NodePort := nodePortAfter p existingPorts bs i\<rparr>) [0..<length bs]"

text \<open>
  Two services that differ at most in the node ports of their port entries.
\<close>

definition sameButNodePorts :: "Service \<Rightarrow> Service \<Rightarrow> bool" where
  "sameButNodePorts w w' \<longleftrightarrow>
     ObjectMeta w' = ObjectMeta w \<and> Status w' = Status w \<and>
     Type (Spec w') = Type (Spec w) \<and> Selector (Spec w') = Selector (Spec w) \<and>
     map (\<lambda>p. p\<lparr>NodePort := 0\<rparr>) (Ports (Spec w')) = map (\<lambda>p. p\<lparr>NodePort := 0\<rparr>) (Ports (Spec w))"

text \<open>The node ports of a service, when there is one.\<close>

definition nodePortsOf :: "Service option \<Rightarrow> int list option" where
  "nodePortsOf w = map_option (map NodePort \<circ> Ports \<circ> Spec) w"

subsection \<open>Example configurations\<close>

text \<open>
  Concrete collaborators, services and clusters on which the theorems below are
  instantiated. The swap marker of \<open>deps0\<close> is a label naming the peer resource:
  swapping two resources sets it on both, swapping them again removes it.
\<close>

definition deps0 :: deps where
  "deps0 =
     \<lparr>router_ExposedPort = ''exposed-port'',
      appLabel = ''tsuru.io/app-name'',
      managedServiceLabel = ''tsuru.io/router-lb'',
      appPoolLabel = ''tsuru.io/app-pool'',
      getClient = None,
      getAppNamespace = (\<lambda>app. Inr ''default''),
      getApp = (\<lambda>app. (Some \<lparr>NamespaceName = ''default''\<rparr>, None)),
      getWebService = (\<lambda>app. (None, Some (ErrNoService ''no service found''))),
      getAppServicePort = (\<lambda>app. 8888),
      isSwapped = (\<lambda>m. (index (Labels m) ''tsuru.io/swapped-with'',
                         index (Labels m) ''tsuru.io/swapped-with'' \<noteq> '''')),
      swapMeta = (\<lambda>a b.
        if index (Labels a) ''tsuru.io/swapped-with'' = Name b
        then (a\<lparr>Labels := (Labels a)(''tsuru.io/swapped-with'' := None)\<rparr>,
              b\<lparr>Labels := (Labels b)(''tsuru.io/swapped-with'' := None)\<rparr>)
        else (a\<lparr>Labels := (Labels a)(''tsuru.io/swapped-with'' \<mapsto> Name b)\<rparr>,
              b\<lparr>Labels := (Labels b)(''tsuru.io/swapped-with'' \<mapsto> Name a)\<rparr>)),
      OptsFromAnnotations =
        (\<lambda>m. (\<lparr>Pool = '''', ExposedPort = index (Annotations m) ''exposed-port'',
                 AdditionalOpts = Annotations m\<rparr>, None)),
      ToAnnotations = (\<lambda>opts. (AdditionalOpts opts, None))\<rparr>"

definition examplePort :: "int \<Rightarrow> int \<Rightarrow> ServicePort" where
  "examplePort p np =
     \<lparr>PortName = ''http'', Protocol = ''TCP'', Port = p, TargetPort = IntVal p, NodePort = np\<rparr>"

definition exampleService ::
  "string \<Rightarrow> (string \<rightharpoonup> string) \<Rightarrow> ServicePort list \<Rightarrow> LoadBalancerIngress list \<Rightarrow> Service" where
  "exampleService name labels ports ingress =
     \<lparr>ObjectMeta = \<lparr>Name = name, Namespace = ''default'', Labels = labels,
                    Annotations = Map.empty\<rparr>,
      Spec = \<lparr>Type = ''LoadBalancer'', Selector = [''app'' \<mapsto> name], Ports = ports\<rparr>,
      Status = \<lparr>LoadBalancer = \<lparr>Ingress = ingress\<rparr>\<rparr>\<rparr>"

definition blueLB :: Service where
  "blueLB = exampleService ''blue-router-lb'' Map.empty [examplePort 80 30080]
              [\<lparr>IP = ''1.2.3.4'', Hostname = ''''\<rparr>]"

definition greenLB :: Service where
  "greenLB = exampleService ''green-router-lb'' Map.empty [examplePort 80 30081]
               [\<lparr>IP = ''5.6.7.8'', Hostname = ''''\<rparr>]"

definition pendingLB :: Service where
  "pendingLB = exampleService ''pending-router-lb'' Map.empty [] []"

definition swappedLB :: Service where
  "swappedLB = exampleService ''old-router-lb'' [''tsuru.io/swapped-with'' \<mapsto> ''new''] []
                 [\<lparr>IP = ''9.9.9.9'', Hostname = ''''\<rparr>]"

definition cluster0 :: "error option list \<Rightarrow> cluster" where
  "cluster0 outcomes =
     \<lparr>services = [(''default'', ''blue-router-lb'') \<mapsto> blueLB,
                  (''default'', ''green-router-lb'') \<mapsto> greenLB,
                  (''default'', ''pending-router-lb'') \<mapsto> pendingLB,
                  (''default'', ''old-router-lb'') \<mapsto> swappedLB],
      script = outcomes, writes = []\<rparr>"

text \<open>A router with two options as labels, one of them documented.\<close>

definition labelsOnly :: LBService where
  "labelsOnly =
     \<lparr>Namespace_s = ''default'', Labels_s = Map.empty, Annotations_s = Map.empty,
      OptsAsLabels = [(''my-opt'', ''my-label''), (''other-opt'', ''other-label'')],
      OptsAsLabelsDocs = [''other-opt'' \<mapsto> ''Sets the other label.''],
      PoolLabels = Map.empty\<rparr>"

text \<open>
  A router, collaborators, options and a backend service that all give the label
  \<open>k\<close>; the application label of \<open>depsK\<close> is \<open>k\<close> as well.
\<close>

definition routerK :: LBService where
  "routerK =
     \<lparr>Namespace_s = ''default'', Labels_s = [''k'' \<mapsto> ''static''],
      Annotations_s = Map.empty,
      OptsAsLabels = [(''opt-k'', ''k'')],
      OptsAsLabelsDocs = Map.empty,
      PoolLabels = [''pool1'' \<mapsto> [''k'' \<mapsto> ''pool'']]\<rparr>"

definition depsK :: deps where
  "depsK = deps0\<lparr>appLabel := ''k''\<rparr>"

definition optsK :: Opts where
  "optsK = \<lparr>Pool = ''pool1'', ExposedPort = '''', AdditionalOpts = [''opt-k'' \<mapsto> ''option'']\<rparr>"

definition webK :: Service where
  "webK = exampleService ''blue-web'' [''k'' \<mapsto> ''web'', ''tsuru.io/app-pool'' \<mapsto> ''web''] [] []"

text \<open>
  The example of the port precedence: the exposed port 8080, all ports exposed, a
  backend service with the ports 80, 8080 and 443, and a balancer that has the port 80.
\<close>

definition optsAll :: Opts where
  "optsAll = \<lparr>Pool = '''', ExposedPort = ''8080'',
               AdditionalOpts = [''expose-all-ports'' \<mapsto> ''true'']\<rparr>"

definition webLB :: Service where
  "webLB = exampleService ''blue-web'' Map.empty
             [examplePort 80 31000, examplePort 8080 31001, examplePort 443 31002] []"

text \<open>
  Collaborators that find the backend service \<open>webLB\<close>.
\<close>

definition depsWeb :: deps where
  "depsWeb = deps0\<lparr>getWebService := (\<lambda>app. (Some webLB, None))\<rparr>"

text \<open>
  The backend service \<open>webLB\<close> as a sync of the application \<open>blue\<close> with the
  options \<open>optsAll\<close> leaves it.
\<close>

definition webAfter :: Service where
  "webAfter = webLB\<lparr>Spec := (Spec webLB)\<lparr>Ports :=
                 [examplePort 80 30080, examplePort 8080 31001, examplePort 443 0]\<rparr>\<rparr>"

text \<open>
  What an update or create request carries: the name of the service, the value of its
  selector for \<open>app\<close> and its swap marker.
\<close>

fun requestSummary :: "request \<Rightarrow> string \<times> string option \<times> string option" where
  "requestSummary (UpdateCall ns svc) =
     (Name (ObjectMeta svc), Selector (Spec svc) ''app'',
      Labels (ObjectMeta svc) ''tsuru.io/swapped-with'')"
| "requestSummary (CreateCall ns svc) =
     (Name (ObjectMeta svc), Selector (Spec svc) ''app'',
      Labels (ObjectMeta svc) ''tsuru.io/swapped-with'')"

section \<open>Properties\<close>

subsection \<open>Swap\<close>

lemma next_outcome_frame:
  "next_outcome c = (f, c1) \<Longrightarrow> services c1 = services c \<and> writes c1 = writes c"
  by (auto simp: next_outcome_def split: list.splits)

lemma Services_Get_frame:
  "Services_Get ns name c = (r, c1) \<Longrightarrow> services c1 = services c \<and> writes c1 = writes c"
  by (auto simp: Services_Get_def Let_def split: prod.splits option.splits dest: next_outcome_frame)

lemma getLBService_frame:
  "getLBService d appName c = (r, c1) \<Longrightarrow> services c1 = services c \<and> writes c1 = writes c"
  by (auto simp: getLBService_def split: option.splits sum.splits dest: Services_Get_frame)

lemma getLBService_ok:
  "getLBService d appName c = (Inr svc, c1) \<Longrightarrow>
     getClient d = None \<and> (\<exists>ns. getAppNamespace d appName = Inr ns)"
  by (auto simp: getLBService_def split: option.splits sum.splits)

lemma Services_Update_writes:
  "Services_Update ns svc c = (r, c1) \<Longrightarrow> writes c1 = writes c @ [UpdateCall ns svc]"
  by (auto simp: Services_Update_def Let_def next_outcome_def split: prod.splits option.splits list.splits)

lemma Services_Update_served:
  "Services_Update ns svc c = (None, c1) \<Longrightarrow> services c1 (ns, Name (ObjectMeta svc)) = Some svc"
  by (auto simp: Services_Update_def Let_def next_outcome_def split: prod.splits option.splits list.splits)

lemma swap_Selector:
  "swap d a b = (a', b') \<Longrightarrow>
     Selector (Spec a') = Selector (Spec b) \<and> Selector (Spec b') = Selector (Spec a)"
  by (auto simp: swap_def split: prod.splits)

text \<open>
  Claim C2. When a balancer resource that \<open>Swap\<close> has fetched is not ready (the
  source, or the destination after a ready source), \<open>Swap\<close> returns
  \<open>ErrLoadBalancerNotReady\<close>, and the cluster has received no update or create
  request and holds the same services as before: no selector and no metadata has changed.
\<close>

theorem Swap_not_ready:
  assumes "getLBService d appSrc c = (Inr srcServ, c1)"
    and "\<not> isReady srcServ \<or>
         (\<exists>dstServ c2. getLBService d appDst c1 = (Inr dstServ, c2) \<and> \<not> isReady dstServ)"
  shows "fst (Swap d appSrc appDst c) = Some ErrLoadBalancerNotReady \<and>
         services (snd (Swap d appSrc appDst c)) = services c \<and>
         writes (snd (Swap d appSrc appDst c)) = writes c"
proof (cases "isReady srcServ")
  case False
  with assms(1) have "Swap d appSrc appDst c = (Some ErrLoadBalancerNotReady, c1)"
    by (simp add: Swap_def)
  with getLBService_frame [OF assms(1)] show ?thesis by simp
next
  case True
  with assms(2) obtain dstServ c2 where
    dst: "getLBService d appDst c1 = (Inr dstServ, c2)" and nr: "\<not> isReady dstServ"
    by blast
  from assms(1) True dst nr have "Swap d appSrc appDst c = (Some ErrLoadBalancerNotReady, c2)"
    by (simp add: Swap_def)
  with getLBService_frame [OF assms(1)] getLBService_frame [OF dst] show ?thesis by simp
qed

lemma swap_eq:
  "swap d a b =
     (a\<lparr>ObjectMeta := fst (swapMeta d (ObjectMeta a) (ObjectMeta b)),
        Spec := (Spec a)\<lparr>Selector := Selector (Spec b)\<rparr>\<rparr>,
      b\<lparr>ObjectMeta := snd (swapMeta d (ObjectMeta a) (ObjectMeta b)),
        Spec := (Spec b)\<lparr>Selector := Selector (Spec a)\<rparr>\<rparr>)"
  by (simp add: swap_def split: prod.splits)

text \<open>
  Claim C1. When the first update of \<open>Swap\<close> is served and the second fails with
  \<open>err\<close>, the cluster has received exactly three update requests from \<open>Swap\<close>:
  the source with the destination's selector and the metadata that \<^verbatim>\<open>BaseService.swap\<close>
  gives it, the destination with the source's selector and its swapped metadata, and,
  as the one rollback, the source with its selector as it was before the swap and the
  metadata that a second \<^verbatim>\<open>BaseService.swap\<close> of the swapped metadata gives it. The
  result is never \<open>None\<close>: it is \<open>err\<close> when the rollback update is served (and
  the cluster then holds the source as the rollback sent it), and otherwise one error
  whose message holds the messages of both \<open>err\<close> and the rollback failure.
\<close>

theorem Swap_rollback:
  assumes src: "getLBService d appSrc c = (Inr srcServ, c1)" "isReady srcServ"
    and dst: "getLBService d appDst c1 = (Inr dstServ, c2)" "isReady dstServ"
    and ns: "getAppNamespace d appSrc = Inr ns" "getAppNamespace d appDst = Inr ns"
    and sw: "swap d srcServ dstServ = (srcSwapped, dstSwapped)"
    and up1: "Services_Update ns srcSwapped c2 = (None, c3)"
    and up2: "Services_Update ns dstSwapped c3 = (Some err, c4)"
    and re: "swap d srcSwapped dstSwapped = (srcBack, dstBack)"
    and up3: "Services_Update ns srcBack c4 = (errRollback, c5)"
  shows "Swap d appSrc appDst c =
           (case errRollback of
              None \<Rightarrow> (Some err, c5)
            | Some e \<Rightarrow>
                (Some (Errorf (''failed to rollback swap '' @ Error err @ '': '' @ Error e)), c5)) \<and>
         fst (Swap d appSrc appDst c) \<noteq> None \<and>
         Selector (Spec srcBack) = Selector (Spec srcServ) \<and>
         writes c5 = writes c @ [UpdateCall ns srcSwapped, UpdateCall ns dstSwapped,
                                 UpdateCall ns srcBack] \<and>
         (errRollback = None \<longrightarrow>
            services c5 (ns, Name (ObjectMeta srcBack)) = Some srcBack) \<and>
         writes (snd (Swap d appSrc appDst c)) =
           writes c @
           [UpdateCall ns
              (srcServ\<lparr>ObjectMeta := fst (swapMeta d (ObjectMeta srcServ) (ObjectMeta dstServ)),
                       Spec := (Spec srcServ)\<lparr>Selector := Selector (Spec dstServ)\<rparr>\<rparr>),
            UpdateCall ns
              (dstServ\<lparr>ObjectMeta := snd (swapMeta d (ObjectMeta srcServ) (ObjectMeta dstServ)),
                       Spec := (Spec dstServ)\<lparr>Selector := Selector (Spec srcServ)\<rparr>\<rparr>),
            UpdateCall ns
              (srcServ\<lparr>ObjectMeta :=
                 fst (swapMeta d (fst (swapMeta d (ObjectMeta srcServ) (ObjectMeta dstServ)))
                                 (snd (swapMeta d (ObjectMeta srcServ) (ObjectMeta dstServ))))\<rparr>)] \<and>
         srcSwapped =
           srcServ\<lparr>ObjectMeta := fst (swapMeta d (ObjectMeta srcServ) (ObjectMeta dstServ)),
                    Spec := (Spec srcServ)\<lparr>Selector := Selector (Spec dstServ)\<rparr>\<rparr> \<and>
         dstSwapped =
           dstServ\<lparr>ObjectMeta := snd (swapMeta d (ObjectMeta srcServ) (ObjectMeta dstServ)),
                    Spec := (Spec dstServ)\<lparr>Selector := Selector (Spec srcServ)\<rparr>\<rparr> \<and>
         srcBack =
           srcServ\<lparr>ObjectMeta :=
             fst (swapMeta d (ObjectMeta srcSwapped) (ObjectMeta dstSwapped))\<rparr> \<and>
         dstBack =
           dstServ\<lparr>ObjectMeta :=
             snd (swapMeta d (ObjectMeta srcSwapped) (ObjectMeta dstSwapped))\<rparr>"
proof -
  from getLBService_ok [OF src(1)] have cl: "getClient d = None" by simp
  have run: "Swap d appSrc appDst c =
           (case errRollback of
              None \<Rightarrow> (Some err, c5)
            | Some e \<Rightarrow>
                (Some (Errorf (''failed to rollback swap '' @ Error err @ '': '' @ Error e)), c5))"
    using assms cl by (simp add: Swap_def rollbackError_def split: option.splits)
  have sel: "Selector (Spec srcBack) = Selector (Spec srcServ)"
    using swap_Selector [OF sw] swap_Selector [OF re] by simp
  have w: "writes c5 = writes c @ [UpdateCall ns srcSwapped, UpdateCall ns dstSwapped,
                                 UpdateCall ns srcBack]"
    using getLBService_frame [OF src(1)] getLBService_frame [OF dst(1)]
      Services_Update_writes [OF up1] Services_Update_writes [OF up2]
      Services_Update_writes [OF up3]
    by simp
  have ne: "fst (Swap d appSrc appDst c) \<noteq> None"
    using run by (simp split: option.splits)
  have st: "errRollback = None \<longrightarrow> services c5 (ns, Name (ObjectMeta srcBack)) = Some srcBack"
    using up3 Services_Update_served by blast
  from sw have s1: "srcSwapped =
           srcServ\<lparr>ObjectMeta := fst (swapMeta d (ObjectMeta srcServ) (ObjectMeta dstServ)),
                    Spec := (Spec srcServ)\<lparr>Selector := Selector (Spec dstServ)\<rparr>\<rparr>"
    and d1: "dstSwapped =
           dstServ\<lparr>ObjectMeta := snd (swapMeta d (ObjectMeta srcServ) (ObjectMeta dstServ)),
                    Spec := (Spec dstServ)\<lparr>Selector := Selector (Spec srcServ)\<rparr>\<rparr>"
    by (simp_all add: swap_eq)
  from re have "srcBack =
           srcSwapped\<lparr>ObjectMeta := fst (swapMeta d (ObjectMeta srcSwapped) (ObjectMeta dstSwapped)),
                    Spec := (Spec srcSwapped)\<lparr>Selector := Selector (Spec dstSwapped)\<rparr>\<rparr>"
    and "dstBack =
           dstSwapped\<lparr>ObjectMeta := snd (swapMeta d (ObjectMeta srcSwapped) (ObjectMeta dstSwapped)),
                    Spec := (Spec dstSwapped)\<lparr>Selector := Selector (Spec srcSwapped)\<rparr>\<rparr>"
    by (simp_all add: swap_eq)
  then have s2: "srcBack =
           srcServ\<lparr>ObjectMeta := fst (swapMeta d (ObjectMeta srcSwapped) (ObjectMeta dstSwapped))\<rparr>"
    and d2: "dstBack =
           dstServ\<lparr>ObjectMeta := snd (swapMeta d (ObjectMeta srcSwapped) (ObjectMeta dstSwapped))\<rparr>"
    by (simp_all add: s1 d1)
  have sc: "snd (Swap d appSrc appDst c) = c5"
    using run by (simp split: option.splits)
  have wx: "writes (snd (Swap d appSrc appDst c)) =
           writes c @
           [UpdateCall ns
              (srcServ\<lparr>ObjectMeta := fst (swapMeta d (ObjectMeta srcServ) (ObjectMeta dstServ)),
                       Spec := (Spec srcServ)\<lparr>Selector := Selector (Spec dstServ)\<rparr>\<rparr>),
            UpdateCall ns
              (dstServ\<lparr>ObjectMeta := snd (swapMeta d (ObjectMeta srcServ) (ObjectMeta dstServ)),
                       Spec := (Spec dstServ)\<lparr>Selector := Selector (Spec srcServ)\<rparr>\<rparr>),
            UpdateCall ns
              (srcServ\<lparr>ObjectMeta :=
                 fst (swapMeta d (fst (swapMeta d (ObjectMeta srcServ) (ObjectMeta dstServ)))
                                 (snd (swapMeta d (ObjectMeta srcServ) (ObjectMeta dstServ))))\<rparr>)]"
    unfolding sc w
    by (simp add: s2) (simp add: s1 d1)
  from run ne sel w st wx s1 d1 s2 d2 show ?thesis by blast
qed

text \<open>The calls to the cluster, by the head of the script.\<close>

lemma Services_Update_refused:
  "script c = Some e # rest \<Longrightarrow>
   Services_Update ns svc c = (Some e, c\<lparr>script := rest, writes := writes c @ [UpdateCall ns svc]\<rparr>)"
  by (simp add: Services_Update_def next_outcome_def)

lemma Services_Update_accepted:
  "script c = None # rest \<Longrightarrow> services c (ns, Name (ObjectMeta svc)) = Some old \<Longrightarrow>
   Services_Update ns svc c =
     (None, c\<lparr>script := rest, writes := writes c @ [UpdateCall ns svc],
              services := (services c)((ns, Name (ObjectMeta svc)) \<mapsto> svc)\<rparr>)"
  by (simp add: Services_Update_def next_outcome_def)

lemma getLBService_found:
  "getClient d = None \<Longrightarrow> getAppNamespace d appName = Inr ns \<Longrightarrow> script c = None # rest \<Longrightarrow>
   services c (ns, serviceName appName) = Some svc \<Longrightarrow>
   getLBService d appName c = (Inr svc, c\<lparr>script := rest\<rparr>)"
  by (simp add: getLBService_def Services_Get_def next_outcome_def)

text \<open>Unfolding the examples and the calls to the cluster.\<close>

lemmas example_defs = deps0_def examplePort_def exampleService_def blueLB_def greenLB_def
  pendingLB_def swappedLB_def cluster0_def

lemmas call_defs = getLBService_def Services_Get_def Services_Update_def Services_Create_def
  next_outcome_def serviceName_def

text \<open>A ready source and a destination with no ingress entry.\<close>

theorem Swap_not_ready_witness:
  "fst (Swap deps0 ''blue'' ''pending'' (cluster0 [])) = Some ErrLoadBalancerNotReady \<and>
   services (snd (Swap deps0 ''blue'' ''pending'' (cluster0 []))) = services (cluster0 []) \<and>
   writes (snd (Swap deps0 ''blue'' ''pending'' (cluster0 []))) = []"
  using Swap_not_ready [of deps0 "''blue''" "cluster0 []" blueLB "cluster0 []" "''pending''"]
  by (simp add: example_defs call_defs isReady_def)

text \<open>
  The second update and the rollback update both fail. The three requests carry the
  selectors of green, of blue and of blue again; the swap marker is set by the first
  swap and removed by the second.
\<close>

theorem Swap_rollback_witness:
  "fst (Swap deps0 ''blue'' ''green''
          (cluster0 [None, None, None, Some (OtherError ''update refused''),
                     Some (OtherError ''conflict'')])) =
     Some (Errorf ''failed to rollback swap update refused: conflict'') \<and>
   map requestSummary
     (writes (snd (Swap deps0 ''blue'' ''green''
          (cluster0 [None, None, None, Some (OtherError ''update refused''),
                     Some (OtherError ''conflict'')])))) =
     [(''blue-router-lb'', Some ''green-router-lb'', Some ''green-router-lb''),
      (''green-router-lb'', Some ''blue-router-lb'', Some ''blue-router-lb''),
      (''blue-router-lb'', Some ''blue-router-lb'', None)]"
proof -
  let ?e1 = "Some (OtherError ''update refused'')" and ?e2 = "Some (OtherError ''conflict'')"
  define c where "c = cluster0 [None, None, None, ?e1, ?e2]"
  define srcSwapped where "srcSwapped = fst (swap deps0 blueLB greenLB)"
  define dstSwapped where "dstSwapped = snd (swap deps0 blueLB greenLB)"
  define srcBack where "srcBack = fst (swap deps0 srcSwapped dstSwapped)"
  define dstBack where "dstBack = snd (swap deps0 srcSwapped dstSwapped)"
  define c1 where "c1 = c\<lparr>script := [None, None, ?e1, ?e2]\<rparr>"
  define c2 where "c2 = c1\<lparr>script := [None, ?e1, ?e2]\<rparr>"
  define c3 where "c3 = c2\<lparr>script := [?e1, ?e2], writes := writes c2 @ [UpdateCall ''default'' srcSwapped],
     services := (services c2)((''default'', Name (ObjectMeta srcSwapped)) \<mapsto> srcSwapped)\<rparr>"
  define c4 where "c4 = c3\<lparr>script := [?e2], writes := writes c3 @ [UpdateCall ''default'' dstSwapped]\<rparr>"
  define c5 where "c5 = c4\<lparr>script := [], writes := writes c4 @ [UpdateCall ''default'' srcBack]\<rparr>"
  have cl: "getClient deps0 = None"
    and n1: "getAppNamespace deps0 ''blue'' = Inr ''default''"
    and n2: "getAppNamespace deps0 ''green'' = Inr ''default''"
    by (simp_all add: deps0_def)
  have g1: "getLBService deps0 ''blue'' c = (Inr blueLB, c1)"
    unfolding c1_def
    by (rule getLBService_found [OF cl n1]) (simp_all add: c_def cluster0_def serviceName_def)
  have g2: "getLBService deps0 ''green'' c1 = (Inr greenLB, c2)"
    unfolding c2_def
    by (rule getLBService_found [OF cl n2]) (simp_all add: c1_def c_def cluster0_def serviceName_def)
  have r1: "isReady blueLB" and r2: "isReady greenLB"
    by (simp_all add: isReady_def blueLB_def greenLB_def exampleService_def)
  have s1: "swap deps0 blueLB greenLB = (srcSwapped, dstSwapped)"
    by (simp add: srcSwapped_def dstSwapped_def)
  have nm: "Name (ObjectMeta srcSwapped) = ''blue-router-lb''"
    by (simp add: srcSwapped_def swap_def deps0_def blueLB_def greenLB_def exampleService_def
          index_def)
  have u1: "Services_Update ''default'' srcSwapped c2 = (None, c3)"
    unfolding c3_def
    by (rule Services_Update_accepted [where old = blueLB])
       (simp_all add: nm c2_def c1_def c_def cluster0_def)
  have u2: "Services_Update ''default'' dstSwapped c3 = (?e1, c4)"
    unfolding c4_def by (rule Services_Update_refused) (simp add: c3_def)
  have s2: "swap deps0 srcSwapped dstSwapped = (srcBack, dstBack)"
    by (simp add: srcBack_def dstBack_def)
  have u3: "Services_Update ''default'' srcBack c4 = (?e2, c5)"
    unfolding c5_def by (rule Services_Update_refused) (simp add: c4_def)
  note t = Swap_rollback [OF g1 r1 g2 r2 n1 n2 s1 u1 u2 s2 u3]
  from t have res: "fst (Swap deps0 ''blue'' ''green'' c) =
      Some (Errorf ''failed to rollback swap update refused: conflict'')"
    by simp
  have m1: "swapMeta deps0 (ObjectMeta blueLB) (ObjectMeta greenLB) =
      ((ObjectMeta blueLB)\<lparr>Labels := [''tsuru.io/swapped-with'' \<mapsto> ''green-router-lb'']\<rparr>,
       (ObjectMeta greenLB)\<lparr>Labels := [''tsuru.io/swapped-with'' \<mapsto> ''blue-router-lb'']\<rparr>)"
    by (simp add: deps0_def blueLB_def greenLB_def exampleService_def index_def)
  have m2: "swapMeta deps0
       ((ObjectMeta blueLB)\<lparr>Labels := [''tsuru.io/swapped-with'' \<mapsto> ''green-router-lb'']\<rparr>)
       ((ObjectMeta greenLB)\<lparr>Labels := [''tsuru.io/swapped-with'' \<mapsto> ''blue-router-lb'']\<rparr>) =
      ((ObjectMeta blueLB)\<lparr>Labels := Map.empty\<rparr>, (ObjectMeta greenLB)\<lparr>Labels := Map.empty\<rparr>)"
    by (simp add: deps0_def blueLB_def greenLB_def exampleService_def index_def)
  from t have "writes (snd (Swap deps0 ''blue'' ''green'' c)) =
           writes c @
           [UpdateCall ''default''
              (blueLB\<lparr>ObjectMeta := fst (swapMeta deps0 (ObjectMeta blueLB) (ObjectMeta greenLB)),
                       Spec := (Spec blueLB)\<lparr>Selector := Selector (Spec greenLB)\<rparr>\<rparr>),
            UpdateCall ''default''
              (greenLB\<lparr>ObjectMeta := snd (swapMeta deps0 (ObjectMeta blueLB) (ObjectMeta greenLB)),
                       Spec := (Spec greenLB)\<lparr>Selector := Selector (Spec blueLB)\<rparr>\<rparr>),
            UpdateCall ''default''
              (blueLB\<lparr>ObjectMeta :=
                 fst (swapMeta deps0 (fst (swapMeta deps0 (ObjectMeta blueLB) (ObjectMeta greenLB)))
                                 (snd (swapMeta deps0 (ObjectMeta blueLB) (ObjectMeta greenLB))))\<rparr>)]"
    by blast
  then have "map requestSummary (writes (snd (Swap deps0 ''blue'' ''green'' c))) =
     [(''blue-router-lb'', Some ''green-router-lb'', Some ''green-router-lb''),
      (''green-router-lb'', Some ''blue-router-lb'', Some ''blue-router-lb''),
      (''blue-router-lb'', Some ''blue-router-lb'', None)]"
    by (simp add: m1 m2) (simp add: c_def cluster0_def blueLB_def greenLB_def exampleService_def)
  with res show ?thesis by (simp add: c_def)
qed

subsection \<open>isReady and Get\<close>

text \<open>
  Claim C7. \<open>isReady\<close> holds exactly when the status has an ingress entry and the IP
  of the first one is not empty; a service whose only ingress entry has an empty IP is
  not ready, whatever its hostname.
\<close>

theorem isReady_first_ingress_IP:
  "(isReady service \<longleftrightarrow>
      Ingress (LoadBalancer (Status service)) \<noteq> [] \<and>
      IP (hd (Ingress (LoadBalancer (Status service)))) \<noteq> '''') \<and>
   \<not> isReady (service\<lparr>Status := \<lparr>LoadBalancer = \<lparr>Ingress = [\<lparr>IP = '''', Hostname = h\<rparr>]\<rparr>\<rparr>\<rparr>)"
  by (simp add: isReady_def split: list.split)

text \<open>
  Claim C8. For the service that \<open>Get\<close> fetches, the address returned is empty when
  there is no ingress entry, the hostname of the first ingress entry when that is not
  empty, and otherwise the IP of the first ingress entry, followed by a colon and the
  number of the first port when the service has a port.
\<close>

theorem Get_address:
  assumes "getLBService d appName c = (Inr service, c1)"
  shows "Get d appName c =
           ((Some [''address'' \<mapsto>
               (let lbs = Ingress (LoadBalancer (Status service)); ports = Ports (Spec service)
                in if lbs = [] then ''''
                   else if Hostname (hd lbs) \<noteq> '''' then Hostname (hd lbs)
                   else if ports = [] then IP (hd lbs)
                   else IP (hd lbs) @ '':'' @ fmt_d (Port (hd ports)))],
             None), c1)"
  using assms by (simp add: Get_def address_def Let_def split: list.split)

lemma fmt_d_80: "fmt_d 80 = ''80''"
  by (simp add: fmt_d_def fmt_nat.simps digit_def)

text \<open>The address of a service with the ingress IP 1.2.3.4 and the port 80.\<close>

theorem Get_address_witness:
  "Get deps0 ''blue'' (cluster0 []) = ((Some [''address'' \<mapsto> ''1.2.3.4:80''], None), cluster0 [])"
proof -
  have g: "getLBService deps0 ''blue'' (cluster0 []) = (Inr blueLB, cluster0 [])"
    by (simp add: call_defs deps0_def cluster0_def)
  show ?thesis
    using Get_address [OF g]
    by (simp add: blueLB_def exampleService_def examplePort_def fmt_d_80)
qed

text \<open>The other examples of the address: a hostname replaces it, no ingress gives none.\<close>

lemma address_examples:
  "address (exampleService ''x'' Map.empty [examplePort 80 0]
      [\<lparr>IP = ''1.2.3.4'', Hostname = ''lb.example.com''\<rparr>]) = ''lb.example.com''"
  "address (exampleService ''x'' Map.empty [examplePort 80 0] []) = ''''"
  "address (exampleService ''x'' Map.empty [] [\<lparr>IP = ''1.2.3.4'', Hostname = ''''\<rparr>]) = ''1.2.3.4''"
  by (simp_all add: address_def exampleService_def)

subsection \<open>SupportedOptions\<close>

lemma fold_addOption:
  "distinct (map fst kvs) \<Longrightarrow>
   fold (addOption docs) kvs opts k =
     (case map_of kvs k of
        None \<Rightarrow> opts k
      | Some v \<Rightarrow> Some (if index docs k \<noteq> '''' then index docs k else v))"
proof (induction kvs arbitrary: opts)
  case Nil
  then show ?case by simp
next
  case (Cons kv kvs)
  obtain k' v' where kv: "kv = (k', v')" by (cases kv)
  from Cons.prems kv have d: "distinct (map fst kvs)" and nk: "k' \<notin> fst ` set kvs" by auto
  from nk have none: "map_of kvs k' = None" by (simp add: map_of_eq_None_iff)
  show ?case
    using Cons.IH [OF d] kv none
    by (auto simp: addOption_def Let_def split: option.splits)
qed

text \<open>
  Claim C10, as stated, fails: an option that maps to a label and has no description is
  listed with the name of its label, not with the empty string.
\<close>

theorem SupportedOptions_undocumented_counterexample:
  "map_of (OptsAsLabels labelsOnly) ''my-opt'' = Some ''my-label'' \<and>
   OptsAsLabelsDocs labelsOnly ''my-opt'' = None \<and>
   fst (SupportedOptions deps0 labelsOnly) ''my-opt'' = Some ''my-label''"
  by (simp add: SupportedOptions_def labelsOnly_def addOption_def index_def)

text \<open>
  Claim C10, amended. The keys of the mapping that \<open>SupportedOptions\<close> returns are the
  exposed-port option, the expose-all-ports option and the options of \<open>OptsAsLabels\<close>;
  each option of \<open>OptsAsLabels\<close> is listed with its configured description when that is
  present and not empty, and with the name of its label otherwise.
\<close>

theorem SupportedOptions_entries:
  assumes "distinct (map fst (OptsAsLabels s))"
  shows "snd (SupportedOptions d s) = None \<and>
         dom (fst (SupportedOptions d s)) =
           {router_ExposedPort d, exposeAllPortsOpt} \<union> fst ` set (OptsAsLabels s) \<and>
         (\<forall>(k, v) \<in> set (OptsAsLabels s).
            fst (SupportedOptions d s) k =
              Some (if index (OptsAsLabelsDocs s) k \<noteq> '''' then index (OptsAsLabelsDocs s) k
                    else v))"
proof -
  let ?m = "fst (SupportedOptions d s)"
  have m: "?m k =
     (case map_of (OptsAsLabels s) k of
        None \<Rightarrow>
          [router_ExposedPort d \<mapsto> '''',
           exposeAllPortsOpt \<mapsto>
             ''Expose all ports used by application in the Load Balancer. Defaults to false.''] k
      | Some v \<Rightarrow> Some (if index (OptsAsLabelsDocs s) k \<noteq> '''' then index (OptsAsLabelsDocs s) k
                        else v))" for k
    by (simp add: SupportedOptions_def fold_addOption [OF assms])
  have dom: "dom ?m = {router_ExposedPort d, exposeAllPortsOpt} \<union> fst ` set (OptsAsLabels s)"
  proof (rule set_eqI)
    fix k
    have "k \<in> dom ?m \<longleftrightarrow>
            map_of (OptsAsLabels s) k \<noteq> None \<or> k \<in> {router_ExposedPort d, exposeAllPortsOpt}"
      by (auto simp: m domIff split: option.splits if_splits)
    then show "k \<in> dom ?m \<longleftrightarrow>
        k \<in> {router_ExposedPort d, exposeAllPortsOpt} \<union> fst ` set (OptsAsLabels s)"
      by (auto simp: map_of_eq_None_iff)
  qed
  have ent: "\<forall>(k, v) \<in> set (OptsAsLabels s).
            ?m k = Some (if index (OptsAsLabelsDocs s) k \<noteq> '''' then index (OptsAsLabelsDocs s) k
                    else v)"
    using assms by (auto simp: m)
  have "snd (SupportedOptions d s) = None" by (simp add: SupportedOptions_def)
  with dom ent show ?thesis by blast
qed

text \<open>One documented and one undocumented option.\<close>

theorem SupportedOptions_entries_witness:
  "dom (fst (SupportedOptions deps0 labelsOnly)) =
     {''exposed-port'', ''expose-all-ports'', ''my-opt'', ''other-opt''} \<and>
   fst (SupportedOptions deps0 labelsOnly) ''my-opt'' = Some ''my-label'' \<and>
   fst (SupportedOptions deps0 labelsOnly) ''other-opt'' = Some ''Sets the other label.''"
proof -
  have d: "distinct (map fst (OptsAsLabels labelsOnly))" by (simp add: labelsOnly_def)
  from SupportedOptions_entries [OF d, of deps0]
  show ?thesis
    by (auto simp: labelsOnly_def deps0_def exposeAllPortsOpt_def index_def)
qed

subsection \<open>fillLabelsAndAnnotations\<close>

lemma mergeMaps_4:
  "mergeMaps [a, b, c, e] k =
     (case a k of Some v \<Rightarrow> Some v | None \<Rightarrow>
      (case b k of Some v \<Rightarrow> Some v | None \<Rightarrow>
       (case c k of Some v \<Rightarrow> Some v | None \<Rightarrow> e k)))"
  by (simp add: mergeMaps_def mergeEntry_def split: option.splits)

lemma mergeMaps_5:
  "mergeMaps ([a, b, c, e] @ [w]) k =
     (case a k of Some v \<Rightarrow> Some v | None \<Rightarrow>
      (case b k of Some v \<Rightarrow> Some v | None \<Rightarrow>
       (case c k of Some v \<Rightarrow> Some v | None \<Rightarrow>
        (case e k of Some v \<Rightarrow> Some v | None \<Rightarrow> w k))))"
  by (simp add: mergeMaps_def mergeEntry_def split: option.splits)

lemma fold_addOptLabel_dom:
  "dom (fold (addOptLabel opts) kvs m) =
     dom m \<union> {labelName. \<exists>optName. (optName, labelName) \<in> set kvs \<and>
                                      AdditionalOpts opts optName \<noteq> None}"
proof (induction kvs arbitrary: m)
  case Nil
  then show ?case by simp
next
  case (Cons kv kvs)
  obtain optName labelName where kv: "kv = (optName, labelName)" by (cases kv)
  have step: "dom (addOptLabel opts kv m) =
      dom m \<union> (if AdditionalOpts opts optName \<noteq> None then {labelName} else {})"
    by (auto simp: kv addOptLabel_def split: option.splits)
  have "dom (fold (addOptLabel opts) (kv # kvs) m) =
      dom (addOptLabel opts kv m) \<union>
        {labelName. \<exists>optName. (optName, labelName) \<in> set kvs \<and>
                                      AdditionalOpts opts optName \<noteq> None}"
    by (simp add: Cons.IH)
  also have "\<dots> = dom m \<union> {labelName. \<exists>optName. (optName, labelName) \<in> set (kv # kvs) \<and>
                                      AdditionalOpts opts optName \<noteq> None}"
    unfolding step by (auto simp: kv)
  finally show ?case .
qed

lemma fold_addOptLabel_value:
  "fold (addOptLabel opts) kvs m labelName = Some v \<Longrightarrow>
     m labelName = Some v \<or>
     (\<exists>optName. (optName, labelName) \<in> set kvs \<and> AdditionalOpts opts optName = Some v)"
proof (induction kvs arbitrary: m)
  case Nil
  then show ?case by simp
next
  case (Cons kv kvs)
  obtain optName' labelName' where kv: "kv = (optName', labelName')" by (cases kv)
  from Cons.prems kv
  have "fold (addOptLabel opts) kvs (addOptLabel opts (optName', labelName') m) labelName = Some v"
    by simp
  from Cons.IH [OF this] show ?case
    by (auto simp: kv addOptLabel_def split: option.splits if_splits)
qed

text \<open>
  Claim C5. When the options serialize to annotations, \<open>fillLabelsAndAnnotations\<close>
  succeeds and the label it sets for a key is the value of the first of these sources
  that holds the key: the pool's labels, the labels of the options, the router's static
  labels, the three reserved labels, and the labels of the backend service when there is
  one. The labels of the options are the labels of the options of \<open>OptsAsLabels\<close> that
  the caller gave, each with the value given for such an option.
\<close>

theorem fillLabelsAndAnnotations_precedence:
  assumes "snd (ToAnnotations d opts) = None"
  shows "snd (fillLabelsAndAnnotations d s svc appName webService opts) = None \<and>
         Labels (ObjectMeta (fst (fillLabelsAndAnnotations d s svc appName webService opts))) k =
           (case poolLabelsOf s (Pool opts) k of Some v \<Rightarrow> Some v | None \<Rightarrow>
            (case optsLabelsOf s opts k of Some v \<Rightarrow> Some v | None \<Rightarrow>
             (case Labels_s s k of Some v \<Rightarrow> Some v | None \<Rightarrow>
              (case [appLabel d \<mapsto> appName, managedServiceLabel d \<mapsto> ''true'',
                     appPoolLabel d \<mapsto> Pool opts] k of Some v \<Rightarrow> Some v | None \<Rightarrow>
               (case webService of None \<Rightarrow> None | Some w \<Rightarrow> Labels (ObjectMeta w) k))))) \<and>
         dom (optsLabelsOf s opts) =
           {labelName. \<exists>optName. (optName, labelName) \<in> set (OptsAsLabels s) \<and>
                                  AdditionalOpts opts optName \<noteq> None} \<and>
         (\<forall>labelName v. optsLabelsOf s opts labelName = Some v \<longrightarrow>
            (\<exists>optName. (optName, labelName) \<in> set (OptsAsLabels s) \<and>
                       AdditionalOpts opts optName = Some v))"
proof -
  obtain ann where ta: "ToAnnotations d opts = (ann, None)"
    using assms by (cases "ToAnnotations d opts") simp
  have ok: "snd (fillLabelsAndAnnotations d s svc appName webService opts) = None"
    by (simp add: fillLabelsAndAnnotations_def ta Let_def)
  have lab: "Labels (ObjectMeta (fst (fillLabelsAndAnnotations d s svc appName webService opts))) k =
           (case poolLabelsOf s (Pool opts) k of Some v \<Rightarrow> Some v | None \<Rightarrow>
            (case optsLabelsOf s opts k of Some v \<Rightarrow> Some v | None \<Rightarrow>
             (case Labels_s s k of Some v \<Rightarrow> Some v | None \<Rightarrow>
              (case [appLabel d \<mapsto> appName, managedServiceLabel d \<mapsto> ''true'',
                     appPoolLabel d \<mapsto> Pool opts] k of Some v \<Rightarrow> Some v | None \<Rightarrow>
               (case webService of None \<Rightarrow> None | Some w \<Rightarrow> Labels (ObjectMeta w) k)))))"
  proof (cases webService)
    case None
    then show ?thesis
      by (simp add: fillLabelsAndAnnotations_def ta Let_def mergeMaps_4 reservedLabels_def
               split: option.splits)
  next
    case (Some w)
    then show ?thesis
      by (simp add: fillLabelsAndAnnotations_def ta Let_def mergeMaps_5 reservedLabels_def
               del: append.simps split: option.splits)
  qed
  have dm: "dom (optsLabelsOf s opts) =
           {labelName. \<exists>optName. (optName, labelName) \<in> set (OptsAsLabels s) \<and>
                                  AdditionalOpts opts optName \<noteq> None}"
    by (simp add: optsLabelsOf_def fold_addOptLabel_dom)
  have vl: "\<forall>labelName v. optsLabelsOf s opts labelName = Some v \<longrightarrow>
            (\<exists>optName. (optName, labelName) \<in> set (OptsAsLabels s) \<and>
                       AdditionalOpts opts optName = Some v)"
    using fold_addOptLabel_value [of opts "OptsAsLabels s" Map.empty]
    by (auto simp: optsLabelsOf_def)
  from ok lab dm vl show ?thesis by blast
qed

text \<open>
  The key \<open>k\<close> is in all five sources and takes the pool's value; the pool label is
  a reserved label and a label of the backend service, and takes the reserved value.
\<close>

theorem fillLabelsAndAnnotations_precedence_witness:
  "Labels (ObjectMeta (fst (fillLabelsAndAnnotations depsK routerK blueLB ''blue'' (Some webK) optsK)))
      ''k'' = Some ''pool'' \<and>
   Labels (ObjectMeta (fst (fillLabelsAndAnnotations depsK routerK blueLB ''blue'' (Some webK) optsK)))
      ''tsuru.io/app-pool'' = Some ''pool1'' \<and>
   optsLabelsOf routerK optsK ''k'' = Some ''option'' \<and>
   Labels_s routerK ''k'' = Some ''static'' \<and>
   Labels (ObjectMeta webK) ''k'' = Some ''web'' \<and>
   Labels (ObjectMeta webK) ''tsuru.io/app-pool'' = Some ''web''"
proof -
  have a: "snd (ToAnnotations depsK optsK) = None" by (simp add: depsK_def deps0_def)
  have o: "optsLabelsOf routerK optsK = [''k'' \<mapsto> ''option'']"
    by (simp add: optsLabelsOf_def addOptLabel_def routerK_def optsK_def)
  have p: "poolLabelsOf routerK (Pool optsK) = [''k'' \<mapsto> ''pool'']"
    by (simp add: poolLabelsOf_def routerK_def optsK_def)
  have l: "Labels_s routerK = [''k'' \<mapsto> ''static'']" by (simp add: routerK_def)
  have r: "[appLabel depsK \<mapsto> ''blue'', managedServiceLabel depsK \<mapsto> ''true'',
            appPoolLabel depsK \<mapsto> Pool optsK] ''tsuru.io/app-pool'' = Some ''pool1''"
    by (simp add: depsK_def deps0_def optsK_def)
  have w: "Labels (ObjectMeta webK) ''k'' = Some ''web''"
    "Labels (ObjectMeta webK) ''tsuru.io/app-pool'' = Some ''web''"
    by (simp_all add: webK_def exampleService_def)
  note t = fillLabelsAndAnnotations_precedence
         [OF a, where s = routerK and svc = blueLB and appName = "''blue''"
            and webService = "Some webK"]
  have k1: "Labels (ObjectMeta (fst (fillLabelsAndAnnotations depsK routerK blueLB ''blue''
              (Some webK) optsK))) ''k'' = Some ''pool''"
    using t [where k = "''k''"] by (simp add: p)
  have k2: "Labels (ObjectMeta (fst (fillLabelsAndAnnotations depsK routerK blueLB ''blue''
              (Some webK) optsK))) ''tsuru.io/app-pool'' = Some ''pool1''"
    using t [where k = "''tsuru.io/app-pool''"] r by (simp add: p o l)
  from k1 k2 w show ?thesis by (simp add: o l)
qed

subsection \<open>syncLB on a swapped resource\<close>

lemma fetchOrNew_frame:
  "fetchOrNew d s appName app c = (r, c1) \<Longrightarrow> services c1 = services c \<and> writes c1 = writes c"
  by (auto simp: fetchOrNew_def split: prod.splits sum.splits if_splits dest: getLBService_frame)

text \<open>
  Claim C6. When the balancer resource that \<open>syncLB\<close> works on is swapped, the call
  returns no error at once, whatever the options and for \<open>Create\<close> and \<open>Update\<close>
  alike; the cluster has received no update or create request and holds the same
  services as before.
\<close>

theorem syncLB_swapped_noop:
  assumes "getApp d appName = (app, None)"
    and "fetchOrNew d s appName app c = (Inr lbService, c1)"
    and "snd (isSwapped d (ObjectMeta lbService))"
  shows "syncLB d s appName opts isUpdate c = ((None, None), c1) \<and>
         Create d s appName given c = ((None, None), c1) \<and>
         Update d s appName c = ((None, None), c1) \<and>
         services c1 = services c \<and> writes c1 = writes c"
  using assms fetchOrNew_frame [OF assms(2)]
  by (simp add: syncLB_def Create_def Update_def)

text \<open>A sync of the application \<open>old\<close>, whose resource carries the swap marker.\<close>

theorem syncLB_swapped_noop_witness:
  "Update deps0 labelsOnly ''old'' (cluster0 []) = ((None, None), cluster0 []) \<and>
   Create deps0 labelsOnly ''old'' optsK (cluster0 []) = ((None, None), cluster0 []) \<and>
   snd (isSwapped deps0 (ObjectMeta swappedLB))"
proof -
  have a: "getApp deps0 ''old'' = (Some \<lparr>NamespaceName = ''default''\<rparr>, None)"
    by (simp add: deps0_def)
  have f: "fetchOrNew deps0 labelsOnly ''old'' (Some \<lparr>NamespaceName = ''default''\<rparr>) (cluster0 [])
             = (Inr swappedLB, cluster0 [])"
    by (simp add: fetchOrNew_def call_defs deps0_def cluster0_def)
  have w: "snd (isSwapped deps0 (ObjectMeta swappedLB))"
    by (simp add: deps0_def swappedLB_def exampleService_def index_def)
  from syncLB_swapped_noop [OF a f w] w show ?thesis by simp
qed

subsection \<open>portsForService: the store\<close>

lemma deref_setNodePort_same:
  "validRef st r \<Longrightarrow> deref (setNodePort r v st) r = (deref st r)\<lparr>NodePort := v\<rparr>"
  by (cases r) (simp_all add: validRef_def deref_def setNodePort_def)

lemma deref_setNodePort_other:
  "r' \<noteq> r \<Longrightarrow> deref (setNodePort r v st) r' = deref st r'"
  by (cases r; cases r') (simp_all add: deref_def setNodePort_def)

lemma length_setNodePort [simp]:
  "length (basePorts (setNodePort r v st)) = length (basePorts st)"
  by (cases r) (simp_all add: setNodePort_def)

lemma validRef_setNodePort [simp]:
  "validRef (setNodePort r v st) r' = validRef st r'"
  by (cases r') (simp_all add: validRef_def)

lemma length_collectStore [simp]:
  "length (basePorts (collectStore ex r st)) = length (basePorts st)"
  by (simp add: collectStore_def split: option.splits)

lemma validRef_collectStore [simp]:
  "validRef (collectStore ex r st) r' = validRef st r'"
  by (cases r') (simp_all add: validRef_def)

lemma deref_collectStore_same:
  "validRef st r \<Longrightarrow> deref (collectStore ex r st) r = carried ex (deref st r)"
  by (simp add: collectStore_def carried_def deref_setNodePort_same split: option.splits)

lemma deref_collectStore_other:
  "r' \<noteq> r \<Longrightarrow> deref (collectStore ex r st) r' = deref st r'"
  by (simp add: collectStore_def deref_setNodePort_other split: option.splits)

lemma collectPort_collectStore:
  "collectPort ex (k, r) (ports, st) =
     (ports @ [deref (collectStore ex r st) r], collectStore ex r st)"
  by (simp add: collectPort_def collectStore_def Let_def)

lemma deref_fold_collectStore:
  "distinct rs \<Longrightarrow> \<forall>r \<in> set rs. validRef st r \<Longrightarrow>
   deref (fold (collectStore ex) rs st) r' =
     (if r' \<in> set rs then carried ex (deref st r') else deref st r')"
proof (induction rs arbitrary: st)
  case Nil
  then show ?case by simp
next
  case (Cons r rs)
  from Cons.prems have d: "distinct rs" and nr: "r \<notin> set rs"
    and v: "validRef st r" and vs: "\<forall>r \<in> set rs. validRef (collectStore ex r st) r"
    by simp_all
  from Cons.prems have vs': "\<forall>x \<in> set rs. validRef (collectStore ex r st) x" by simp
  have "deref (fold (collectStore ex) (r # rs) st) r' =
      (if r' \<in> set rs then carried ex (deref (collectStore ex r st) r')
       else deref (collectStore ex r st) r')"
    using Cons.IH [OF d vs'] by simp
  also have "\<dots> = (if r' \<in> set (r # rs) then carried ex (deref st r') else deref st r')"
  proof (cases "r' = r")
    case True
    with nr v show ?thesis by (simp add: deref_collectStore_same)
  next
    case False
    then show ?thesis by (simp add: deref_collectStore_other)
  qed
  finally show ?case .
qed

lemma length_fold_collectStore [simp]:
  "length (basePorts (fold (collectStore ex) rs st)) = length (basePorts st)"
  by (induction rs arbitrary: st) simp_all

lemma fold_collectPort:
  "distinct (map snd w) \<Longrightarrow> \<forall>r \<in> snd ` set w. validRef st r \<Longrightarrow>
   fold (collectPort ex) w (ports, st) =
     (ports @ map (\<lambda>(k, r). carried ex (deref st r)) w, fold (collectStore ex) (map snd w) st)"
proof (induction w arbitrary: ports st)
  case Nil
  then show ?case by simp
next
  case (Cons kr w)
  obtain k r where kr: "kr = (k, r)" by (cases kr)
  from Cons.prems kr have d: "distinct (map snd w)" and nr: "r \<notin> snd ` set w"
    and v: "validRef st r" and vs: "\<forall>x \<in> snd ` set w. validRef (collectStore ex r st) x"
    by auto
  have same: "map (\<lambda>(k, x). carried ex (deref (collectStore ex r st) x)) w =
              map (\<lambda>(k, x). carried ex (deref st x)) w"
  proof (rule map_cong [OF refl])
    fix kx assume "kx \<in> set w"
    with nr have "snd kx \<noteq> r" by auto
    then show "(case kx of (k, x) \<Rightarrow> carried ex (deref (collectStore ex r st) x)) =
               (case kx of (k, x) \<Rightarrow> carried ex (deref st x))"
      by (cases kx) (simp add: deref_collectStore_other)
  qed
  show ?case
    using Cons.IH [OF d vs] v
    by (simp add: kr collectPort_collectStore deref_collectStore_same same)
qed

subsection \<open>portsForService: the wanted ports\<close>

lemma set_update_distinct:
  "distinct (map fst al) \<Longrightarrow>
   set (AList.update k v al) = insert (k, v) {kv \<in> set al. fst kv \<noteq> k}"
  by (induction al) (auto simp: rev_image_eqI)

lemma keys_update: "fst ` set (AList.update k v al) = insert k (fst ` set al)"
  by (induction al) auto

lemma wantedInv_skip:
  assumes "wantedInv p bs m w" and "Port (bs ! m) = p"
  shows "wantedInv p bs (Suc m) w"
  unfolding wantedInv_def
proof (intro conjI)
  from assms(1) show "distinct (map fst w)" and "(p, NewPort) \<in> set w"
    by (simp_all add: wantedInv_def)
  show "\<forall>(k, r) \<in> set w.
        case r of
          NewPort \<Rightarrow> k = p
        | BasePort i \<Rightarrow> i < Suc m \<and> Port (bs ! i) = k \<and> k \<noteq> p \<and>
                        (\<forall>j. i < j \<and> j < Suc m \<longrightarrow> Port (bs ! j) \<noteq> k)"
  proof (clarify)
    fix k r assume kr: "(k, r) \<in> set w"
    with assms(1) have old: "case r of
          NewPort \<Rightarrow> k = p
        | BasePort i \<Rightarrow> i < m \<and> Port (bs ! i) = k \<and> k \<noteq> p \<and>
                        (\<forall>j. i < j \<and> j < m \<longrightarrow> Port (bs ! j) \<noteq> k)"
      by (auto simp: wantedInv_def)
    show "case r of
          NewPort \<Rightarrow> k = p
        | BasePort i \<Rightarrow> i < Suc m \<and> Port (bs ! i) = k \<and> k \<noteq> p \<and>
                        (\<forall>j. i < j \<and> j < Suc m \<longrightarrow> Port (bs ! j) \<noteq> k)"
    proof (cases r)
      case NewPort
      with old show ?thesis by simp
    next
      case (BasePort i)
      with old assms(2) show ?thesis by (auto simp: less_Suc_eq)
    qed
  qed
  from assms show "\<forall>i < Suc m. Port (bs ! i) \<noteq> p \<longrightarrow> Port (bs ! i) \<in> fst ` set w"
    by (auto simp: wantedInv_def less_Suc_eq)
qed

lemma wantedInv_update:
  assumes "wantedInv p bs m w" and "Port (bs ! m) \<noteq> p"
  shows "wantedInv p bs (Suc m) (AList.update (Port (bs ! m)) (BasePort m) w)"
  unfolding wantedInv_def
proof (intro conjI)
  let ?k = "Port (bs ! m)"
  let ?w = "AList.update ?k (BasePort m) w"
  from assms(1) have d: "distinct (map fst w)" by (simp add: wantedInv_def)
  then show "distinct (map fst ?w)" by (simp add: distinct_update)
  have st: "set ?w = insert (?k, BasePort m) {kv \<in> set w. fst kv \<noteq> ?k}"
    by (rule set_update_distinct [OF d])
  from assms show "(p, NewPort) \<in> set ?w" by (simp add: st wantedInv_def)
  show "\<forall>(k, r) \<in> set ?w.
        case r of
          NewPort \<Rightarrow> k = p
        | BasePort i \<Rightarrow> i < Suc m \<and> Port (bs ! i) = k \<and> k \<noteq> p \<and>
                        (\<forall>j. i < j \<and> j < Suc m \<longrightarrow> Port (bs ! j) \<noteq> k)"
  proof (clarify)
    fix k r assume kr: "(k, r) \<in> set ?w"
    show "case r of
          NewPort \<Rightarrow> k = p
        | BasePort i \<Rightarrow> i < Suc m \<and> Port (bs ! i) = k \<and> k \<noteq> p \<and>
                        (\<forall>j. i < j \<and> j < Suc m \<longrightarrow> Port (bs ! j) \<noteq> k)"
    proof (cases "(k, r) = (?k, BasePort m)")
      case True
      with assms(2) show ?thesis by auto
    next
      case False
      with kr st have in_w: "(k, r) \<in> set w" and nk: "k \<noteq> ?k" by auto
      from in_w assms(1) have old: "case r of
          NewPort \<Rightarrow> k = p
        | BasePort i \<Rightarrow> i < m \<and> Port (bs ! i) = k \<and> k \<noteq> p \<and>
                        (\<forall>j. i < j \<and> j < m \<longrightarrow> Port (bs ! j) \<noteq> k)"
        by (auto simp: wantedInv_def)
      show ?thesis
      proof (cases r)
        case NewPort
        with old show ?thesis by simp
      next
        case (BasePort i)
        with old nk show ?thesis by (auto simp: less_Suc_eq)
      qed
    qed
  qed
  from assms(1) show "\<forall>i < Suc m. Port (bs ! i) \<noteq> p \<longrightarrow> Port (bs ! i) \<in> fst ` set ?w"
    by (auto simp: wantedInv_def less_Suc_eq keys_update)
qed

lemma fold_exposeBasePort:
  assumes "m \<le> length (basePorts st0)"
  shows "wantedInv (int32 a) (basePorts st0) m
           (fst (fold (exposeBasePort a) [0..<m] ([(int32 a, NewPort)], st0))) \<and>
         newPort (snd (fold (exposeBasePort a) [0..<m] ([(int32 a, NewPort)], st0))) = newPort st0 \<and>
         length (basePorts (snd (fold (exposeBasePort a) [0..<m] ([(int32 a, NewPort)], st0)))) =
           length (basePorts st0) \<and>
         (\<forall>i < length (basePorts st0).
            basePorts (snd (fold (exposeBasePort a) [0..<m] ([(int32 a, NewPort)], st0))) ! i =
              (if i < m then zeroed (int32 a) (basePorts st0 ! i) else basePorts st0 ! i))"
  using assms
proof (induction m)
  case 0
  show ?case by (simp add: wantedInv_def)
next
  case (Suc m)
  let ?bs = "basePorts st0"
  let ?p = "int32 a"
  obtain w st where res: "fold (exposeBasePort a) [0..<m] ([(?p, NewPort)], st0) = (w, st)"
    by (cases "fold (exposeBasePort a) [0..<m] ([(?p, NewPort)], st0)")
  from Suc.prems have m: "m < length ?bs" by simp
  from Suc.IH res m have inv: "wantedInv ?p ?bs m w" and np: "newPort st = newPort st0"
    and len: "length (basePorts st) = length ?bs"
    and nth: "\<forall>i < length ?bs. basePorts st ! i = (if i < m then zeroed ?p (?bs ! i) else ?bs ! i)"
    by simp_all
  from nth m have cur: "basePorts st ! m = ?bs ! m" by simp
  have step: "fold (exposeBasePort a) [0..<Suc m] ([(?p, NewPort)], st0) = exposeBasePort a m (w, st)"
    by (simp add: res)
  show ?case
  proof (cases "Port (?bs ! m) = ?p")
    case True
    then have "exposeBasePort a m (w, st) = (w, st)"
      by (simp add: exposeBasePort_def cur)
    with step True inv np len nth show ?thesis
      by (auto simp: wantedInv_skip zeroed_def less_Suc_eq)
  next
    case False
    let ?st = "setNodePort (BasePort m) 0 st"
    have bp: "basePorts ?st = (basePorts st)[m := (?bs ! m)\<lparr>NodePort := 0\<rparr>]"
      by (simp add: setNodePort_def cur)
    from m len have pm: "Port (basePorts ?st ! m) = Port (?bs ! m)" by (simp add: bp)
    from False have ex: "exposeBasePort a m (w, st) =
        (AList.update (Port (?bs ! m)) (BasePort m) w, ?st)"
      by (simp add: exposeBasePort_def cur Let_def pm)
    have np': "newPort ?st = newPort st0" by (simp add: setNodePort_def np)
    have nth': "\<forall>i < length ?bs.
        basePorts ?st ! i = (if i < Suc m then zeroed ?p (?bs ! i) else ?bs ! i)"
      using nth len False by (auto simp: bp nth_list_update zeroed_def less_Suc_eq)
    from step ex wantedInv_update [OF inv False] np' len nth' show ?thesis
      by simp
  qed
qed

subsection \<open>portsForService: the result\<close>

lemma wantedPortsOf_props:
  "wantedInv (int32 (primaryPort opts)) (basePortsOf baseSvc)
     (if exposeAll opts baseSvc then length (basePortsOf baseSvc) else 0)
     (fst (wantedPortsOf d app opts baseSvc)) \<and>
   newPort (snd (wantedPortsOf d app opts baseSvc)) = newServicePort d app (primaryPort opts) \<and>
   length (basePorts (snd (wantedPortsOf d app opts baseSvc))) = length (basePortsOf baseSvc) \<and>
   (\<forall>i < length (basePortsOf baseSvc).
      basePorts (snd (wantedPortsOf d app opts baseSvc)) ! i =
        (if exposeAll opts baseSvc then zeroed (int32 (primaryPort opts)) (basePortsOf baseSvc ! i)
         else basePortsOf baseSvc ! i))"
proof (cases "exposeAll opts baseSvc")
  case True
  let ?st0 = "\<lparr>newPort = newServicePort d app (primaryPort opts), basePorts = basePortsOf baseSvc\<rparr>"
  from True have w: "wantedPortsOf d app opts baseSvc =
      fold (exposeBasePort (primaryPort opts)) [0..<length (basePortsOf baseSvc)]
        ([(int32 (primaryPort opts), NewPort)], ?st0)"
    by (simp add: wantedPortsOf_def exposeAll_def basePortsOf_def Let_def)
  from fold_exposeBasePort [of "length (basePortsOf baseSvc)" ?st0 "primaryPort opts"] True
  show ?thesis by (simp add: w)
next
  case False
  then have w: "wantedPortsOf d app opts baseSvc =
      ([(int32 (primaryPort opts), NewPort)],
       \<lparr>newPort = newServicePort d app (primaryPort opts), basePorts = basePortsOf baseSvc\<rparr>)"
    by (auto simp: wantedPortsOf_def exposeAll_def basePortsOf_def Let_def)
  from False show ?thesis by (simp add: w wantedInv_def)
qed

lemma wantedInv_refs:
  assumes "wantedInv p bs m w" and "(k, r) \<in> set w" and "(k', r) \<in> set w"
  shows "k = k'"
proof -
  let ?ok = "\<lambda>k. case r of
          NewPort \<Rightarrow> k = p
        | BasePort i \<Rightarrow> i < m \<and> Port (bs ! i) = k \<and> k \<noteq> p \<and>
                        (\<forall>j. i < j \<and> j < m \<longrightarrow> Port (bs ! j) \<noteq> k)"
  from assms(1,2) have a: "?ok k" unfolding wantedInv_def by blast
  from assms(1,3) have b: "?ok k'" unfolding wantedInv_def by blast
  from a b show ?thesis by (cases r) simp_all
qed

lemma distinct_values:
  "distinct (map fst w) \<Longrightarrow>
   (\<And>k k' r. (k, r) \<in> set w \<Longrightarrow> (k', r) \<in> set w \<Longrightarrow> k = k') \<Longrightarrow>
   distinct (map snd w)"
proof (induction w)
  case Nil
  then show ?case by simp
next
  case (Cons kr w)
  obtain k r where kr: "kr = (k, r)" by (cases kr)
  from Cons.prems(1) kr have d: "distinct (map fst w)" and nk: "k \<notin> fst ` set w" by simp_all
  have "distinct (map snd w)"
  proof (rule Cons.IH [OF d])
    fix a a' b assume "(a, b) \<in> set w" "(a', b) \<in> set w"
    then show "a = a'" using Cons.prems(2) [of a b a'] by simp
  qed
  moreover have "r \<notin> snd ` set w"
  proof
    assume "r \<in> snd ` set w"
    then obtain k' where k': "(k', r) \<in> set w" by auto
    have "k = k'" by (rule Cons.prems(2) [of k r k']) (simp_all add: kr k')
    with k' nk show False by (auto simp: image_iff)
  qed
  ultimately show ?case by (simp add: kr)
qed

lemma wantedInv_distinct_refs:
  assumes "wantedInv p bs m w"
  shows "distinct (map snd w)"
proof (rule distinct_values)
  from assms show "distinct (map fst w)" by (simp add: wantedInv_def)
next
  fix k k' r assume "(k, r) \<in> set w" "(k', r) \<in> set w"
  with assms show "k = k'" by (rule wantedInv_refs)
qed

text \<open>What the wanted ports refer to before the last loop.\<close>

lemma wanted_entry:
  assumes "(k, r) \<in> set (fst (wantedPortsOf d app opts baseSvc))"
  shows "validRef (snd (wantedPortsOf d app opts baseSvc)) r \<and>
         Port (deref (snd (wantedPortsOf d app opts baseSvc)) r) = k \<and>
         NodePort (deref (snd (wantedPortsOf d app opts baseSvc)) r) = 0 \<and>
         (case r of
            NewPort \<Rightarrow> k = int32 (primaryPort opts) \<and>
              deref (snd (wantedPortsOf d app opts baseSvc)) r = newServicePort d app (primaryPort opts)
          | BasePort i \<Rightarrow> k \<noteq> int32 (primaryPort opts) \<and> exposeAll opts baseSvc \<and>
              i < length (basePortsOf baseSvc) \<and>
              deref (snd (wantedPortsOf d app opts baseSvc)) r = (basePortsOf baseSvc ! i)\<lparr>NodePort := 0\<rparr>)"
proof -
  let ?w = "fst (wantedPortsOf d app opts baseSvc)" and ?st = "snd (wantedPortsOf d app opts baseSvc)"
  let ?p = "int32 (primaryPort opts)" and ?bs = "basePortsOf baseSvc"
  let ?m = "if exposeAll opts baseSvc then length ?bs else 0"
  note props = wantedPortsOf_props [of opts baseSvc d app]
  from props have inv: "wantedInv ?p ?bs ?m ?w" by blast
  from props have np: "newPort ?st = newServicePort d app (primaryPort opts)" by blast
  from props have len: "length (basePorts ?st) = length ?bs" by blast
  from props have nth: "\<forall>i < length ?bs. basePorts ?st ! i =
        (if exposeAll opts baseSvc then zeroed ?p (?bs ! i) else ?bs ! i)" by blast
  from inv assms have ent: "case r of
          NewPort \<Rightarrow> k = ?p
        | BasePort i \<Rightarrow> i < ?m \<and> Port (?bs ! i) = k \<and> k \<noteq> ?p \<and>
                        (\<forall>j. i < j \<and> j < ?m \<longrightarrow> Port (?bs ! j) \<noteq> k)"
    unfolding wantedInv_def by blast
  show ?thesis
  proof (cases r)
    case NewPort
    with ent np show ?thesis
      by (simp add: validRef_def deref_def newServicePort_def)
  next
    case (BasePort i)
    with ent have i: "i < ?m" and k: "Port (?bs ! i) = k" and kp: "k \<noteq> ?p" by simp_all
    from i have ea: "exposeAll opts baseSvc" and il: "i < length ?bs"
      by (simp_all split: if_splits)
    from nth il ea have "basePorts ?st ! i = zeroed ?p (?bs ! i)" by simp
    with k kp have "basePorts ?st ! i = (?bs ! i)\<lparr>NodePort := 0\<rparr>" by (auto simp: zeroed_def)
    with BasePort il len k kp ea show ?thesis
      by (simp add: validRef_def deref_def)
  qed
qed

lemma portsForService_eq:
  "portsForService d svc app opts baseSvc =
     ((sort_key Port
         (map (\<lambda>(k, r). carried (existingPortsOf svc) (deref (snd (wantedPortsOf d app opts baseSvc)) r))
              (fst (wantedPortsOf d app opts baseSvc))),
       None),
      map_option
        (\<lambda>b. b\<lparr>Spec := (Spec b)\<lparr>Ports :=
                 basePorts (fold (collectStore (existingPortsOf svc))
                              (map snd (fst (wantedPortsOf d app opts baseSvc)))
                              (snd (wantedPortsOf d app opts baseSvc)))\<rparr>\<rparr>)
        baseSvc)"
proof -
  let ?w = "fst (wantedPortsOf d app opts baseSvc)" and ?st = "snd (wantedPortsOf d app opts baseSvc)"
  have d: "distinct (map snd ?w)"
    using wantedPortsOf_props [of opts baseSvc d app] wantedInv_distinct_refs by blast
  have v: "\<forall>r \<in> snd ` set ?w. validRef ?st r"
    using wanted_entry [of _ _ d app opts baseSvc] by auto
  from fold_collectPort [OF d v, of "existingPortsOf svc" "[]"]
  show ?thesis
    by (simp add: portsForService_def Let_def case_prod_beta)
qed

lemma find_append_last:
  "find P (xs @ [x]) = (case find P xs of Some y \<Rightarrow> Some y | None \<Rightarrow> if P x then Some x else None)"
  by (induction xs) simp_all

lemma fold_existing:
  "fold (\<lambda>port m. m(Port port \<mapsto> port)) ps m k =
     (case find (\<lambda>e. Port e = k) (rev ps) of Some e \<Rightarrow> Some e | None \<Rightarrow> m k)"
proof (induction ps arbitrary: m)
  case Nil
  then show ?case by simp
next
  case (Cons x ps)
  have "fold (\<lambda>port m. m(Port port \<mapsto> port)) (x # ps) m k =
        fold (\<lambda>port m. m(Port port \<mapsto> port)) ps (m(Port x \<mapsto> x)) k"
    by simp
  also have "\<dots> = (case find (\<lambda>e. Port e = k) (rev ps) of
                      Some e \<Rightarrow> Some e | None \<Rightarrow> (m(Port x \<mapsto> x)) k)"
    by (rule Cons.IH)
  also have "\<dots> = (case find (\<lambda>e. Port e = k) (rev (x # ps)) of
                      Some e \<Rightarrow> Some e | None \<Rightarrow> m k)"
    by (simp add: find_append_last split: option.splits)
  finally show ?case .
qed

text \<open>The existing port of a number is the last port of that number on the resource.\<close>

lemma existingPortsOf_find:
  "existingPortsOf svc k = find (\<lambda>e. Port e = k) (rev (Ports (Spec svc)))"
  by (simp add: existingPortsOf_def fold_existing split: option.splits)

lemma carried_fields [simp]:
  "Port (carried ex q) = Port q" "PortName (carried ex q) = PortName q"
  "Protocol (carried ex q) = Protocol q" "TargetPort (carried ex q) = TargetPort q"
  by (simp_all add: carried_def split: option.splits)

lemma NodePort_carried:
  "NodePort (carried ex q) = (case ex (Port q) of Some e \<Rightarrow> NodePort e | None \<Rightarrow> NodePort q)"
  by (simp add: carried_def split: option.splits)

text \<open>Every returned port is a wanted port after lines 335 to 338.\<close>

lemma portsForService_member:
  assumes "x \<in> set (fst (fst (portsForService d svc app opts baseSvc)))"
  obtains k r where "(k, r) \<in> set (fst (wantedPortsOf d app opts baseSvc))"
    and "x = carried (existingPortsOf svc) (deref (snd (wantedPortsOf d app opts baseSvc)) r)"
  using assms by (auto simp: portsForService_eq)

lemma portsForService_Ports:
  "map Port (map (\<lambda>(k, r). carried (existingPortsOf svc) (deref (snd (wantedPortsOf d app opts baseSvc)) r))
              (fst (wantedPortsOf d app opts baseSvc))) =
   map fst (fst (wantedPortsOf d app opts baseSvc))"
  using wanted_entry [of _ _ d app opts baseSvc] by auto

text \<open>
  The returned ports are in strictly ascending order of port number: sorted, and no
  number twice.
\<close>

lemma portsForService_sorted:
  "sorted_wrt (<) (map Port (fst (fst (portsForService d svc app opts baseSvc))))"
proof -
  let ?w = "fst (wantedPortsOf d app opts baseSvc)"
  let ?us = "map (\<lambda>(k, r). carried (existingPortsOf svc) (deref (snd (wantedPortsOf d app opts baseSvc)) r)) ?w"
  have dw: "distinct (map fst ?w)"
    using wantedPortsOf_props [of opts baseSvc d app] by (simp add: wantedInv_def)
  have "mset (map Port (sort_key Port ?us)) = mset (map Port ?us)"
    by (simp only: mset_map mset_sort)
  then have "distinct (map Port (sort_key Port ?us)) = distinct (map Port ?us)"
    by (rule mset_eq_imp_distinct_iff)
  with dw have di: "distinct (map Port (sort_key Port ?us))"
    by (simp only: portsForService_Ports)
  have so: "sorted (map Port (sort_key Port ?us))" by (rule sorted_sort_key)
  from so di have "sorted_wrt (<) (map Port (sort_key Port ?us))"
    unfolding strict_sorted_iff by blast
  then show ?thesis by (simp only: portsForService_eq fst_conv)
qed

text \<open>
  The returned port numbers: the primary port and, when all ports are exposed, the
  numbers of the backend service's ports.
\<close>

lemma portsForService_numbers:
  "Port ` set (fst (fst (portsForService d svc app opts baseSvc))) =
     insert (int32 (primaryPort opts))
       (if exposeAll opts baseSvc then Port ` set (basePortsOf baseSvc) else {})"
proof -
  let ?w = "fst (wantedPortsOf d app opts baseSvc)"
  let ?p = "int32 (primaryPort opts)" and ?bs = "basePortsOf baseSvc"
  let ?m = "if exposeAll opts baseSvc then length ?bs else 0"
  have inv: "wantedInv ?p ?bs ?m ?w"
    using wantedPortsOf_props [of opts baseSvc d app] by blast
  let ?us = "map (\<lambda>(k, r). carried (existingPortsOf svc) (deref (snd (wantedPortsOf d app opts baseSvc)) r)) ?w"
  have out: "set (fst (fst (portsForService d svc app opts baseSvc))) = set ?us"
    by (simp add: portsForService_eq)
  have "Port ` set (fst (fst (portsForService d svc app opts baseSvc))) = Port ` set ?us"
    by (simp only: out)
  also have "\<dots> = set (map Port ?us)" by (simp only: set_map)
  also have "\<dots> = set (map fst ?w)" by (simp only: portsForService_Ports)
  also have "\<dots> = insert ?p (if exposeAll opts baseSvc then Port ` set ?bs else {})"
  proof (rule set_eqI)
    fix k
    show "k \<in> set (map fst ?w) \<longleftrightarrow>
          k \<in> insert ?p (if exposeAll opts baseSvc then Port ` set ?bs else {})"
    proof
      assume "k \<in> set (map fst ?w)"
      then obtain r where kr: "(k, r) \<in> set ?w" by auto
      from wanted_entry [OF kr] show "k \<in> insert ?p (if exposeAll opts baseSvc then Port ` set ?bs else {})"
        by (cases r) (auto simp: image_iff)
    next
      assume k: "k \<in> insert ?p (if exposeAll opts baseSvc then Port ` set ?bs else {})"
      show "k \<in> set (map fst ?w)"
      proof (cases "k = ?p")
        case True
        from inv have "(?p, NewPort) \<in> set ?w" by (simp add: wantedInv_def)
        then have "fst (?p, NewPort) \<in> fst ` set ?w" by (rule imageI)
        with True show ?thesis by simp
      next
        case False
        with k have ea: "exposeAll opts baseSvc" and "k \<in> Port ` set ?bs"
          by (simp_all split: if_splits)
        then obtain i where i: "i < length ?bs" and ki: "Port (?bs ! i) = k"
          by (auto simp: in_set_conv_nth)
        from inv have "\<forall>i < ?m. Port (?bs ! i) \<noteq> ?p \<longrightarrow> Port (?bs ! i) \<in> fst ` set ?w"
          by (simp add: wantedInv_def)
        with i ki ea False show ?thesis by auto
      qed
    qed
  qed
  finally show ?thesis .
qed

lemmas strconv_defs = Atoi_def ParseInt_def ParseUint_def isDigit_def digitVal_def maxUint64_def
  ParseBool_def int32_def

lemmas ports_defs = portsForService_def wantedPortsOf_def primaryPort_def newServicePort_def
  exposeBasePort_def collectPort_def deref_def setNodePort_def existingPortsOf_def
  FromInt_def defaultLBPort_def ProtocolTCP_def exposeAllPortsOpt_def index_def
  fmt_d_def fmt_nat.simps digit_def

lemma primaryPort_optsAll: "primaryPort optsAll = 8080"
  by (simp add: primaryPort_def optsAll_def strconv_defs)

lemma portsForService_example:
  "fst (portsForService deps0 blueLB None optsAll (Some webLB)) =
     ([\<lparr>PortName = ''http'', Protocol = ''TCP'', Port = 80, TargetPort = IntVal 80, NodePort = 30080\<rparr>,
       \<lparr>PortName = ''http'', Protocol = ''TCP'', Port = 443, TargetPort = IntVal 443, NodePort = 0\<rparr>,
       \<lparr>PortName = ''port-8080'', Protocol = ''TCP'', Port = 8080, TargetPort = IntVal 8888,
          NodePort = 0\<rparr>], None)"
  by (simp add: ports_defs strconv_defs optsAll_def webLB_def blueLB_def exampleService_def
        examplePort_def deps0_def upt_rec)

text \<open>
  The wanted port numbers: the primary port and, when all ports are exposed, the
  numbers of the backend service's ports.
\<close>

lemma wanted_keys:
  "fst ` set (fst (wantedPortsOf d app opts baseSvc)) =
     insert (int32 (primaryPort opts))
       (if exposeAll opts baseSvc then Port ` set (basePortsOf baseSvc) else {})"
proof (rule set_eqI)
  let ?w = "fst (wantedPortsOf d app opts baseSvc)"
  let ?p = "int32 (primaryPort opts)" and ?bs = "basePortsOf baseSvc"
  let ?m = "if exposeAll opts baseSvc then length ?bs else 0"
  have inv: "wantedInv ?p ?bs ?m ?w"
    using wantedPortsOf_props [of opts baseSvc d app] by blast
  fix k
  show "k \<in> fst ` set ?w \<longleftrightarrow>
        k \<in> insert ?p (if exposeAll opts baseSvc then Port ` set ?bs else {})"
  proof
    assume "k \<in> fst ` set ?w"
    then obtain r where kr: "(k, r) \<in> set ?w" by auto
    from wanted_entry [OF kr] show "k \<in> insert ?p (if exposeAll opts baseSvc then Port ` set ?bs else {})"
      by (cases r) (auto simp: image_iff)
  next
    assume k: "k \<in> insert ?p (if exposeAll opts baseSvc then Port ` set ?bs else {})"
    show "k \<in> fst ` set ?w"
    proof (cases "k = ?p")
      case True
      from inv have "(?p, NewPort) \<in> set ?w" by (simp add: wantedInv_def)
      then have "fst (?p, NewPort) \<in> fst ` set ?w" by (rule imageI)
      with True show ?thesis by simp
    next
      case False
      with k have ea: "exposeAll opts baseSvc" and "k \<in> Port ` set ?bs"
        by (simp_all split: if_splits)
      then obtain i where i: "i < length ?bs" and ki: "Port (?bs ! i) = k"
        by (auto simp: in_set_conv_nth)
      from inv have "\<forall>i < ?m. Port (?bs ! i) \<noteq> ?p \<longrightarrow> Port (?bs ! i) \<in> fst ` set ?w"
        by (simp add: wantedInv_def)
      with i ki ea False show ?thesis by auto
    qed
  qed
qed

lemma carried_zero:
  "NodePort q = 0 \<Longrightarrow>
   carried ex q = q\<lparr>NodePort := (case ex (Port q) of Some e \<Rightarrow> NodePort e | None \<Rightarrow> 0)\<rparr>"
  by (simp add: carried_def split: option.splits)

text \<open>
  Claim C4. The wanted ports are one port for the primary port number and, when all
  ports are exposed, one for every other port number of the backend service; a wanted
  port taken from the backend service is the backend service's port entry with its node
  port set to 0. Every wanted port is returned, with the node port of the existing port
  of the same number on the balancer resource (the last one of that number), and with
  the node port 0 when the resource has no port of that number; nothing else is
  returned, and the returned ports are in ascending order of their numbers.
\<close>

theorem portsForService_nodePort:
  "(\<forall>x \<in> set (fst (fst (portsForService d svc app opts baseSvc))).
      NodePort x =
        (case find (\<lambda>e. Port e = Port x) (rev (Ports (Spec svc))) of
           Some existingPort \<Rightarrow> NodePort existingPort
         | None \<Rightarrow> 0)) \<and>
   (\<forall>(k, r) \<in> set (fst (wantedPortsOf d app opts baseSvc)).
      case r of
        NewPort \<Rightarrow> True
      | BasePort i \<Rightarrow>
          i < length (basePortsOf baseSvc) \<and>
          deref (snd (wantedPortsOf d app opts baseSvc)) r = (basePortsOf baseSvc ! i)\<lparr>NodePort := 0\<rparr>) \<and>
   (\<forall>(k, r) \<in> set (fst (wantedPortsOf d app opts baseSvc)).
      Port (deref (snd (wantedPortsOf d app opts baseSvc)) r) = k \<and>
      (deref (snd (wantedPortsOf d app opts baseSvc)) r)
         \<lparr>NodePort :=
            (case find (\<lambda>e. Port e = k) (rev (Ports (Spec svc))) of
               Some existingPort \<Rightarrow> NodePort existingPort
             | None \<Rightarrow> 0)\<rparr>
        \<in> set (fst (fst (portsForService d svc app opts baseSvc)))) \<and>
   fst ` set (fst (wantedPortsOf d app opts baseSvc)) =
     insert (int32 (primaryPort opts))
       (if fst (ParseBool (index (AdditionalOpts opts) exposeAllPortsOpt)) \<and> baseSvc \<noteq> None
        then Port ` set (basePortsOf baseSvc) else {}) \<and>
   length (fst (fst (portsForService d svc app opts baseSvc))) =
     length (fst (wantedPortsOf d app opts baseSvc)) \<and>
   sorted_wrt (<) (map Port (fst (fst (portsForService d svc app opts baseSvc)))) \<and>
   distinct (map fst (fst (wantedPortsOf d app opts baseSvc)))"
proof (intro conjI ballI)
  fix x assume "x \<in> set (fst (fst (portsForService d svc app opts baseSvc)))"
  then obtain k r where kr: "(k, r) \<in> set (fst (wantedPortsOf d app opts baseSvc))"
    and x: "x = carried (existingPortsOf svc) (deref (snd (wantedPortsOf d app opts baseSvc)) r)"
    by (rule portsForService_member)
  from wanted_entry [OF kr]
  have "NodePort (deref (snd (wantedPortsOf d app opts baseSvc)) r) = 0" by blast
  then show "NodePort x =
        (case find (\<lambda>e. Port e = Port x) (rev (Ports (Spec svc))) of
           Some existingPort \<Rightarrow> NodePort existingPort
         | None \<Rightarrow> 0)"
    by (simp add: x NodePort_carried existingPortsOf_find split: option.splits)
next
  fix kr assume a: "kr \<in> set (fst (wantedPortsOf d app opts baseSvc))"
  obtain k r where kr: "kr = (k, r)" by (cases kr)
  with a have m: "(k, r) \<in> set (fst (wantedPortsOf d app opts baseSvc))" by simp
  from wanted_entry [OF m]
  show "case kr of (k, r) \<Rightarrow>
      (case r of
        NewPort \<Rightarrow> True
      | BasePort i \<Rightarrow>
          i < length (basePortsOf baseSvc) \<and>
          deref (snd (wantedPortsOf d app opts baseSvc)) r = (basePortsOf baseSvc ! i)\<lparr>NodePort := 0\<rparr>)"
    by (cases r) (simp_all add: kr)
next
  fix kr assume a: "kr \<in> set (fst (wantedPortsOf d app opts baseSvc))"
  obtain k r where kr: "kr = (k, r)" by (cases kr)
  with a have m: "(k, r) \<in> set (fst (wantedPortsOf d app opts baseSvc))" by simp
  let ?q = "deref (snd (wantedPortsOf d app opts baseSvc)) r"
  from wanted_entry [OF m] have pk: "Port ?q = k" and z: "NodePort ?q = 0" by blast+
  have "carried (existingPortsOf svc) ?q \<in> set (fst (fst (portsForService d svc app opts baseSvc)))"
    using m by (force simp: portsForService_eq)
  then have "?q\<lparr>NodePort :=
            (case find (\<lambda>e. Port e = k) (rev (Ports (Spec svc))) of
               Some existingPort \<Rightarrow> NodePort existingPort
             | None \<Rightarrow> 0)\<rparr>
        \<in> set (fst (fst (portsForService d svc app opts baseSvc)))"
    by (simp add: carried_zero [OF z] pk existingPortsOf_find)
  with pk show "case kr of (k, r) \<Rightarrow>
      Port (deref (snd (wantedPortsOf d app opts baseSvc)) r) = k \<and>
      (deref (snd (wantedPortsOf d app opts baseSvc)) r)
         \<lparr>NodePort :=
            (case find (\<lambda>e. Port e = k) (rev (Ports (Spec svc))) of
               Some existingPort \<Rightarrow> NodePort existingPort
             | None \<Rightarrow> 0)\<rparr>
        \<in> set (fst (fst (portsForService d svc app opts baseSvc)))"
    by (simp add: kr)
next
  show "fst ` set (fst (wantedPortsOf d app opts baseSvc)) =
     insert (int32 (primaryPort opts))
       (if fst (ParseBool (index (AdditionalOpts opts) exposeAllPortsOpt)) \<and> baseSvc \<noteq> None
        then Port ` set (basePortsOf baseSvc) else {})"
    using wanted_keys [of d app opts baseSvc] by (simp add: exposeAll_def)
next
  show "length (fst (fst (portsForService d svc app opts baseSvc))) =
     length (fst (wantedPortsOf d app opts baseSvc))"
    by (simp add: portsForService_eq)
next
  show "sorted_wrt (<) (map Port (fst (fst (portsForService d svc app opts baseSvc))))"
    by (rule portsForService_sorted)
next
  show "distinct (map fst (fst (wantedPortsOf d app opts baseSvc)))"
    using wantedPortsOf_props [of opts baseSvc d app] by (simp add: wantedInv_def)
qed

text \<open>
  The port 80 keeps the node port 30080 of the balancer; the backend port 443 comes
  with the node port 31002 and is returned with 0.
\<close>

theorem portsForService_nodePort_witness:
  "map (\<lambda>x. (Port x, NodePort x)) (fst (fst (portsForService deps0 blueLB None optsAll (Some webLB)))) =
     [(80, 30080), (443, 0), (8080, 0)] \<and>
   map (\<lambda>x. (Port x, NodePort x)) (Ports (Spec blueLB)) = [(80, 30080)] \<and>
   map (\<lambda>x. (Port x, NodePort x)) (Ports (Spec webLB)) = [(80, 31000), (8080, 31001), (443, 31002)]"
proof -
  let ?out = "fst (fst (portsForService deps0 blueLB None optsAll (Some webLB)))"
  have ps: "map Port ?out = [80, 443, 8080]"
    by (simp add: portsForService_example)
  have ex: "Ports (Spec blueLB) = [examplePort 80 30080]"
    by (simp add: blueLB_def exampleService_def)
  from portsForService_nodePort [of deps0 blueLB None optsAll "Some webLB"]
  have "\<forall>x \<in> set ?out. NodePort x =
        (case find (\<lambda>e. Port e = Port x) (rev (Ports (Spec blueLB))) of
           Some existingPort \<Rightarrow> NodePort existingPort
         | None \<Rightarrow> 0)"
    by blast
  then have "map NodePort ?out =
      map (\<lambda>x. case find (\<lambda>e. Port e = Port x) (rev (Ports (Spec blueLB))) of
           Some existingPort \<Rightarrow> NodePort existingPort
         | None \<Rightarrow> 0) ?out"
    by simp
  also have "\<dots> = map (\<lambda>n. if n = 80 then 30080 else 0) (map Port ?out)"
    by (simp add: ex examplePort_def)
  finally have "map NodePort ?out = [30080, 0, 0]" by (simp add: ps)
  with ps have "map (\<lambda>x. (Port x, NodePort x)) ?out = [(80, 30080), (443, 0), (8080, 0)]"
    by (simp add: list_eq_iff_nth_eq nth_Cons' )
  then show ?thesis
    by (simp add: blueLB_def webLB_def exampleService_def examplePort_def)
qed

text \<open>
  Claim C3, where the code departs from it. \<^verbatim>\<open>Atoi\<close> fails on a numeral that does
  not fit an \<^verbatim>\<open>int\<close> and returns the largest \<^verbatim>\<open>int\<close>, not 0: for such an
  exposed port the code does not fall back to 80. The primary port is the low 32 bits
  of that value, which is -1.
\<close>

theorem portsForService_exposedPort_out_of_range:
  "Atoi ''9223372036854775808'' = (9223372036854775807, Some ErrRange) \<and>
   fst (portsForService deps0 blueLB None
          \<lparr>Pool = '''', ExposedPort = ''9223372036854775808'', AdditionalOpts = Map.empty\<rparr> None) =
     ([\<lparr>PortName = ''port-9223372036854775807'', Protocol = ''TCP'', Port = - 1,
         TargetPort = IntVal 8888, NodePort = 0\<rparr>], None)"
  by (simp add: ports_defs strconv_defs blueLB_def exampleService_def examplePort_def deps0_def)

subsection \<open>The primary port\<close>

lemma parseDigits_error:
  "snd (parseDigits s n) = Some ErrSyntax \<longrightarrow> fst (parseDigits s n) = 0"
  "snd (parseDigits s n) = Some ErrRange \<longrightarrow> fst (parseDigits s n) = maxUint64"
  by (induction s arbitrary: n) auto

text \<open>
  \<^verbatim>\<open>Atoi\<close> gives 0 with a syntax error, and with a range error the largest or the
  smallest \<^verbatim>\<open>int\<close>.
\<close>

lemma Atoi_syntax: "snd (Atoi s) = Some ErrSyntax \<Longrightarrow> fst (Atoi s) = 0"
  using parseDigits_error [of "if hd s = CHR ''+'' \<or> hd s = CHR ''-'' then tl s else s" 0]
  by (auto simp: Atoi_def ParseInt_def ParseUint_def Let_def split: prod.splits if_splits)

lemma Atoi_range:
  "snd (Atoi s) = Some ErrRange \<Longrightarrow> fst (Atoi s) = 2 ^ 63 - 1 \<or> fst (Atoi s) = - (2 ^ 63)"
  by (auto simp: Atoi_def ParseInt_def ParseUint_def Let_def split: prod.splits if_splits)

lemma Atoi_empty: "Atoi '''' = (0, Some ErrSyntax)"
  by (simp add: Atoi_def ParseInt_def)

text \<open>
  The primary port is 80 when the exposed port is empty, is not an optionally signed
  string of decimal digits, or is zero.
\<close>

lemma primaryPort_default:
  "ExposedPort opts = '''' \<or> snd (Atoi (ExposedPort opts)) = Some ErrSyntax \<or>
   fst (Atoi (ExposedPort opts)) = 0 \<Longrightarrow> primaryPort opts = 80"
  by (auto simp: primaryPort_def defaultLBPort_def Atoi_empty dest: Atoi_syntax)

text \<open>
  It is never 80 when the exposed port is a numeral out of range, and the port number
  is then -1 or 0.
\<close>

lemma primaryPort_out_of_range:
  assumes "snd (Atoi (ExposedPort opts)) = Some ErrRange"
  shows "primaryPort opts \<noteq> 80 \<and> (int32 (primaryPort opts) = - 1 \<or> int32 (primaryPort opts) = 0)"
  using Atoi_range [OF assms]
  by (auto simp: primaryPort_def defaultLBPort_def int32_def)

subsection \<open>The order of the last loop\<close>

text \<open>
  The last loop ranges over a Go map, in an order that the language leaves open. The
  pointers of \<open>wantedPorts\<close> are distinct, so each step writes to an object of its own,
  and the ports are sorted by distinct numbers afterwards: in whatever order \<open>w'\<close> the
  loop visits the entries, the ports returned and the store are those of the model.
\<close>

lemma collect_order:
  assumes perm: "mset w' = mset w"
    and d: "distinct (map snd w)"
    and v: "\<forall>r \<in> snd ` set w. validRef st r"
    and inj: "distinct (map (\<lambda>(k, r). Port (deref st r)) w)"
  shows "sort_key Port (fst (fold (collectPort ex) w' ([], st))) =
           sort_key Port (fst (fold (collectPort ex) w ([], st))) \<and>
         snd (fold (collectPort ex) w' ([], st)) = snd (fold (collectPort ex) w ([], st))"
proof -
  let ?g = "\<lambda>(k, r). carried ex (deref st r)"
  from perm have "mset (map snd w') = mset (map snd w)" by simp
  then have "distinct (map snd w') = distinct (map snd w)" by (rule mset_eq_imp_distinct_iff)
  with d have d': "distinct (map snd w')" by simp
  from perm have se: "set w' = set w" by (rule mset_eq_setD)
  with v have v': "\<forall>r \<in> snd ` set w'. validRef st r" by simp
  have f': "fold (collectPort ex) w' ([], st) = (map ?g w', fold (collectStore ex) (map snd w') st)"
    using fold_collectPort [OF d' v', of ex "[]"] by simp
  have f: "fold (collectPort ex) w ([], st) = (map ?g w, fold (collectStore ex) (map snd w) st)"
    using fold_collectPort [OF d v, of ex "[]"] by simp
  have pg: "map Port (map ?g w) = map (\<lambda>(k, r). Port (deref st r)) w" by auto
  have "sort_key Port (map ?g w') = sort_key Port (map ?g w)"
  proof (rule sort_key_inj_key_eq)
    from perm show "mset (map ?g w') = mset (sort_key Port (map ?g w))" by simp
    from inj have "distinct (map Port (map ?g w))" by (simp only: pg)
    then have "inj_on Port (set (map ?g w))" by (simp only: distinct_map)
    with se show "inj_on Port (set (map ?g w'))" by simp
    show "sorted (map Port (sort_key Port (map ?g w)))" by (rule sorted_sort_key)
  qed
  moreover have "fold (collectStore ex) (map snd w') st = fold (collectStore ex) (map snd w) st"
  proof (rule portStore.equality)
    let ?a = "fold (collectStore ex) (map snd w') st" and ?b = "fold (collectStore ex) (map snd w) st"
    have dv': "\<forall>r \<in> set (map snd w'). validRef st r" using v' by simp
    have dv: "\<forall>r \<in> set (map snd w). validRef st r" using v by simp
    have eq: "deref ?a r = deref ?b r" for r
      using deref_fold_collectStore [OF d' dv', of ex r] deref_fold_collectStore [OF d dv, of ex r] se
      by simp
    from eq [of NewPort] show "newPort ?a = newPort ?b" by (simp add: deref_def)
    show "basePorts ?a = basePorts ?b"
    proof (rule nth_equalityI)
      show "length (basePorts ?a) = length (basePorts ?b)" by simp
    next
      fix i assume "i < length (basePorts ?a)"
      from eq [of "BasePort i"] show "basePorts ?a ! i = basePorts ?b ! i" by (simp add: deref_def)
    qed
    show "portStore.more ?a = portStore.more ?b" by simp
  qed
  ultimately show ?thesis by (simp add: f f')
qed

lemma portsForService_order:
  assumes "mset w' = mset (fst (wantedPortsOf d app opts baseSvc))"
  shows "portsForService d svc app opts baseSvc =
           ((sort_key Port
               (fst (fold (collectPort (existingPortsOf svc)) w'
                       ([], snd (wantedPortsOf d app opts baseSvc)))), None),
            map_option
              (\<lambda>b. b\<lparr>Spec := (Spec b)\<lparr>Ports :=
                 basePorts (snd (fold (collectPort (existingPortsOf svc)) w'
                                   ([], snd (wantedPortsOf d app opts baseSvc))))\<rparr>\<rparr>)
              baseSvc)"
proof -
  let ?w = "fst (wantedPortsOf d app opts baseSvc)" and ?st = "snd (wantedPortsOf d app opts baseSvc)"
  have d: "distinct (map snd ?w)"
    using wantedPortsOf_props [of opts baseSvc d app] wantedInv_distinct_refs by blast
  have v: "\<forall>r \<in> snd ` set ?w. validRef ?st r"
    using wanted_entry [of _ _ d app opts baseSvc] by auto
  have pw: "map (\<lambda>(k, r). Port (deref ?st r)) ?w = map fst ?w"
    using wanted_entry [of _ _ d app opts baseSvc] by auto
  have "distinct (map fst ?w)"
    using wantedPortsOf_props [of opts baseSvc d app] by (simp add: wantedInv_def)
  then have inj: "distinct (map (\<lambda>(k, r). Port (deref ?st r)) ?w)" by (simp only: pw)
  from collect_order [OF assms d v inj, of "existingPortsOf svc"]
  show ?thesis
    by (simp add: portsForService_def Let_def case_prod_beta)
qed

subsection \<open>portsForService and syncLB: the backend service\<close>

lemma in_set_drop_nth:
  "x \<in> set (drop n xs) \<longleftrightarrow> (\<exists>j. n \<le> j \<and> j < length xs \<and> xs ! j = x)"
proof
  assume "x \<in> set (drop n xs)"
  then obtain i where i: "i < length (drop n xs)" and x: "drop n xs ! i = x"
    by (auto simp: in_set_conv_nth)
  then have "n \<le> n + i \<and> n + i < length xs \<and> xs ! (n + i) = x" by auto
  then show "\<exists>j. n \<le> j \<and> j < length xs \<and> xs ! j = x" by blast
next
  assume "\<exists>j. n \<le> j \<and> j < length xs \<and> xs ! j = x"
  then obtain j where j: "n \<le> j" "j < length xs" "xs ! j = x" by blast
  then have "j - n < length (drop n xs)" and "drop n xs ! (j - n) = x" by auto
  then show "x \<in> set (drop n xs)" by (auto simp: in_set_conv_nth)
qed

text \<open>With all ports exposed, the wanted ports refer to the last backend port of each number.\<close>

lemma wanted_last_index:
  assumes ea: "exposeAll opts baseSvc" and i: "i < length (basePortsOf baseSvc)"
  shows "BasePort i \<in> snd ` set (fst (wantedPortsOf d app opts baseSvc)) \<longleftrightarrow>
         Port (basePortsOf baseSvc ! i) \<noteq> int32 (primaryPort opts) \<and>
         Port (basePortsOf baseSvc ! i) \<notin> Port ` set (drop (Suc i) (basePortsOf baseSvc))"
proof -
  let ?w = "fst (wantedPortsOf d app opts baseSvc)"
  let ?p = "int32 (primaryPort opts)" and ?bs = "basePortsOf baseSvc"
  from wantedPortsOf_props [of opts baseSvc d app] ea
  have inv: "wantedInv ?p ?bs (length ?bs) ?w" by simp
  from inv have ent: "\<And>k r. (k, r) \<in> set ?w \<Longrightarrow>
        (case r of
          NewPort \<Rightarrow> k = ?p
        | BasePort i \<Rightarrow> i < length ?bs \<and> Port (?bs ! i) = k \<and> k \<noteq> ?p \<and>
                        (\<forall>j. i < j \<and> j < length ?bs \<longrightarrow> Port (?bs ! j) \<noteq> k))"
    unfolding wantedInv_def by blast
  from inv have keys: "\<And>i. i < length ?bs \<Longrightarrow> Port (?bs ! i) \<noteq> ?p \<Longrightarrow> Port (?bs ! i) \<in> fst ` set ?w"
    unfolding wantedInv_def by blast
  have later: "Port (?bs ! i) \<in> Port ` set (drop (Suc i) ?bs) \<longleftrightarrow>
               (\<exists>j. i < j \<and> j < length ?bs \<and> Port (?bs ! j) = Port (?bs ! i))"
  proof
    assume "Port (?bs ! i) \<in> Port ` set (drop (Suc i) ?bs)"
    then obtain x where "x \<in> set (drop (Suc i) ?bs)" and "Port (?bs ! i) = Port x" by auto
    then obtain j where "Suc i \<le> j" "j < length ?bs" "Port (?bs ! j) = Port (?bs ! i)"
      by (auto simp: in_set_drop_nth)
    then show "\<exists>j. i < j \<and> j < length ?bs \<and> Port (?bs ! j) = Port (?bs ! i)"
      by (auto simp: Suc_le_eq)
  next
    assume "\<exists>j. i < j \<and> j < length ?bs \<and> Port (?bs ! j) = Port (?bs ! i)"
    then obtain j where j: "Suc i \<le> j" "j < length ?bs" and pj: "Port (?bs ! j) = Port (?bs ! i)"
      by (auto simp: Suc_le_eq)
    from j have "?bs ! j \<in> set (drop (Suc i) ?bs)" by (auto simp: in_set_drop_nth)
    then have "Port (?bs ! j) \<in> Port ` set (drop (Suc i) ?bs)" by (rule imageI)
    with pj show "Port (?bs ! i) \<in> Port ` set (drop (Suc i) ?bs)" by simp
  qed
  show ?thesis
  proof
    assume "BasePort i \<in> snd ` set ?w"
    then obtain k where "(k, BasePort i) \<in> set ?w" by auto
    from ent [OF this] show "Port (?bs ! i) \<noteq> ?p \<and> Port (?bs ! i) \<notin> Port ` set (drop (Suc i) ?bs)"
      unfolding later by auto
  next
    assume a: "Port (?bs ! i) \<noteq> ?p \<and> Port (?bs ! i) \<notin> Port ` set (drop (Suc i) ?bs)"
    with keys [OF i] obtain r where kr: "(Port (?bs ! i), r) \<in> set ?w" by auto
    from ent [OF kr] a obtain i' where r: "r = BasePort i'" and i': "i' < length ?bs"
      and pi': "Port (?bs ! i') = Port (?bs ! i)"
      and last: "\<forall>j. i' < j \<and> j < length ?bs \<longrightarrow> Port (?bs ! j) \<noteq> Port (?bs ! i)"
      by (cases r) auto
    from a have nolater: "\<forall>j. i < j \<and> j < length ?bs \<longrightarrow> Port (?bs ! j) \<noteq> Port (?bs ! i)"
      unfolding later by blast
    have "i' = i"
    proof (rule ccontr)
      assume "i' \<noteq> i"
      then consider "i' < i" | "i < i'" by linarith
      then show False
      proof cases
        case 1
        with last i show False by blast
      next
        case 2
        with nolater i' pi' show False by blast
      qed
    qed
    with kr r have "(Port (?bs ! i), BasePort i) \<in> set ?w" by simp
    then have "snd (Port (?bs ! i), BasePort i) \<in> snd ` set ?w" by (rule imageI)
    then show "BasePort i \<in> snd ` set ?w" by simp
  qed
qed

text \<open>
  The backend ports after \<open>portsForService\<close>: the store after the last loop.
\<close>

lemma portsForService_backend:
  "snd (portsForService d svc app opts (Some b)) =
     Some (b\<lparr>Spec := (Spec b)\<lparr>Ports :=
        (if fst (ParseBool (index (AdditionalOpts opts) exposeAllPortsOpt))
         then backendPortsAfter (int32 (primaryPort opts)) (existingPortsOf svc) (Ports (Spec b))
         else Ports (Spec b))\<rparr>\<rparr>)"
proof -
  let ?w = "fst (wantedPortsOf d app opts (Some b))" and ?st = "snd (wantedPortsOf d app opts (Some b))"
  let ?p = "int32 (primaryPort opts)" and ?bs = "Ports (Spec b)" and ?ex = "existingPortsOf svc"
  let ?flag = "fst (ParseBool (index (AdditionalOpts opts) exposeAllPortsOpt))"
  let ?after = "basePorts (fold (collectStore ?ex) (map snd ?w) ?st)"
  have bs: "basePortsOf (Some b) = ?bs" by (simp add: basePortsOf_def)
  have ea: "exposeAll opts (Some b) = ?flag" by (simp add: exposeAll_def)
  note props = wantedPortsOf_props [of opts "Some b" d app, unfolded bs ea]
  from props have len: "length (basePorts ?st) = length ?bs" by blast
  from props have nth: "\<forall>i < length ?bs. basePorts ?st ! i =
        (if ?flag then zeroed ?p (?bs ! i) else ?bs ! i)" by blast
  have dw: "distinct (map snd ?w)"
    using wantedPortsOf_props [of opts "Some b" d app] wantedInv_distinct_refs by blast
  have vw: "\<forall>r \<in> set (map snd ?w). validRef ?st r"
    using wanted_entry [of _ _ d app opts "Some b"] by auto
  have at: "?after ! i =
      (if BasePort i \<in> set (map snd ?w) then carried ?ex (basePorts ?st ! i) else basePorts ?st ! i)"
    for i
    using deref_fold_collectStore [OF dw vw, of ?ex "BasePort i"] by (simp add: deref_def)
  have "?after = (if ?flag then backendPortsAfter ?p ?ex ?bs else ?bs)"
  proof (cases ?flag)
    case False
    then have "?w = [(?p, NewPort)]"
      by (simp add: wantedPortsOf_def Let_def)
    then have nb: "BasePort i \<notin> set (map snd ?w)" for i by simp
    have "?after = ?bs"
    proof (rule nth_equalityI)
      show "length ?after = length ?bs" by (simp add: len)
    next
      fix i assume "i < length ?after"
      then have i: "i < length ?bs" by (simp add: len)
      from at [of i] nb [of i] have "?after ! i = basePorts ?st ! i" by simp
      with nth i False show "?after ! i = ?bs ! i" by simp
    qed
    with False show ?thesis by simp
  next
    case True
    have "?after = backendPortsAfter ?p ?ex ?bs"
      unfolding backendPortsAfter_def
    proof (rule map_upt_eqI [symmetric])
      show "length ?after = length ?bs - 0" by (simp add: len)
    next
      fix i assume "i < length ?after"
      then have i: "i < length ?bs" by (simp add: len)
      from True have ea': "exposeAll opts (Some b)" by (simp add: ea)
      note last = wanted_last_index [OF ea', of i d app, unfolded bs, OF i]
      from nth i True have z: "basePorts ?st ! i = zeroed ?p (?bs ! i)" by simp
      show "?after ! i = (?bs ! (0 + i))\<lparr>NodePort := nodePortAfter ?p ?ex ?bs (0 + i)\<rparr>"
      proof (cases "BasePort i \<in> snd ` set ?w")
        case True
        with last have "Port (?bs ! i) \<noteq> ?p" and "Port (?bs ! i) \<notin> Port ` set (drop (Suc i) ?bs)"
          by simp_all
        with True show ?thesis
          by (simp add: at z zeroed_def nodePortAfter_def carried_def split: option.splits)
      next
        case False
        with last have "Port (?bs ! i) = ?p \<or> Port (?bs ! i) \<in> Port ` set (drop (Suc i) ?bs)"
          by simp
        with False show ?thesis
          by (auto simp: at z zeroed_def nodePortAfter_def)
      qed
    qed
    with True show ?thesis by simp
  qed
  then show ?thesis by (simp add: portsForService_eq)
qed

lemma sameButNodePorts_refl: "sameButNodePorts w w"
  by (simp add: sameButNodePorts_def)

lemma sameButNodePorts_backend:
  "snd (portsForService d svc app opts (Some b)) = Some w' \<Longrightarrow> sameButNodePorts b w'"
  by (auto simp: portsForService_backend sameButNodePorts_def backendPortsAfter_def
           intro!: nth_equalityI)

lemma portsForService_no_error:
  "portsForService d svc app opts baseSvc = ((ports, e), w) \<Longrightarrow> e = None"
  by (simp add: portsForService_eq)

lemma portsForService_None:
  "snd (portsForService d svc app opts None) = None"
  by (simp add: portsForService_eq)

lemma fillLabelsAndAnnotations_ok:
  "snd (ToAnnotations d opts) = None \<Longrightarrow>
   snd (fillLabelsAndAnnotations d s svc appName webService opts) = None"
  by (cases "ToAnnotations d opts") (simp add: fillLabelsAndAnnotations_def Let_def)

lemma fillLabelsAndAnnotations_Spec:
  "Spec (fst (fillLabelsAndAnnotations d s svc appName webService opts)) = Spec svc"
  by (simp add: fillLabelsAndAnnotations_def Let_def split: prod.splits option.splits)

lemma existingPortsOf_cong:
  "Ports (Spec a) = Ports (Spec b) \<Longrightarrow> existingPortsOf a = existingPortsOf b"
  by (simp add: existingPortsOf_def)

text \<open>
  The backend service object that \<open>syncLB\<close> leaves, once the balancer resource is
  there, is not swapped and the options are resolved.
\<close>

lemma syncLB_webService:
  assumes "getApp d appName = (app, None)"
    and "fetchOrNew d s appName app c = (Inr lbService, c1)"
    and "\<not> snd (isSwapped d (ObjectMeta lbService))"
    and "(case opts of None \<Rightarrow> OptsFromAnnotations d (ObjectMeta lbService)
          | Some given \<Rightarrow> (given, None)) = (resolved, None)"
  shows "snd (fst (syncLB d s appName opts isUpdate c)) = fst (getWebService d appName) \<or>
         (\<exists>svc. Ports (Spec svc) = Ports (Spec lbService) \<and>
            snd (fst (syncLB d s appName opts isUpdate c)) =
              snd (portsForService d svc app resolved (fst (getWebService d appName))))"
proof -
  obtain webService err where gw: "getWebService d appName = (webService, err)"
    by (cases "getWebService d appName")
  define lb1 where "lb1 = (case webService of
                         None \<Rightarrow> lbService
                       | Some w \<Rightarrow> lbService\<lparr>Spec := (Spec lbService)\<lparr>Selector := Selector (Spec w)\<rparr>\<rparr>)"
  obtain lb2 ferr where fill: "fillLabelsAndAnnotations d s lb1 appName webService resolved = (lb2, ferr)"
    by (cases "fillLabelsAndAnnotations d s lb1 appName webService resolved")
  have "Spec lb2 = Spec lb1"
    using fillLabelsAndAnnotations_Spec [of d s lb1 appName webService resolved] fill by simp
  then have ports: "Ports (Spec lb2) = Ports (Spec lbService)"
    by (simp add: lb1_def split: option.splits)
  have "snd (fst (syncLB d s appName opts isUpdate c)) =
      (if err \<noteq> None \<and> (isUpdate \<or> \<not> isErrNoService err) then webService
       else if ferr \<noteq> None then webService
       else snd (portsForService d lb2 app resolved webService))"
    using assms gw fill [unfolded lb1_def]
    by (auto simp: syncLB_def Let_def split: prod.splits option.splits
             dest: portsForService_no_error)
  with ports gw show ?thesis by auto
qed

lemma syncLB_webService_eq:
  assumes "getApp d appName = (app, None)"
    and "fetchOrNew d s appName app c = (Inr lbService, c1)"
    and "\<not> snd (isSwapped d (ObjectMeta lbService))"
    and "(case opts of None \<Rightarrow> OptsFromAnnotations d (ObjectMeta lbService)
          | Some given \<Rightarrow> (given, None)) = (resolved, None)"
    and "getWebService d appName = (Some w, None)"
    and "snd (ToAnnotations d resolved) = None"
  shows "snd (fst (syncLB d s appName opts isUpdate c)) =
           snd (portsForService d lbService app resolved (Some w))"
proof -
  let ?lb1 = "lbService\<lparr>Spec := (Spec lbService)\<lparr>Selector := Selector (Spec w)\<rparr>\<rparr>"
  obtain lb2 ferr where fill: "fillLabelsAndAnnotations d s ?lb1 appName (Some w) resolved = (lb2, ferr)"
    by (cases "fillLabelsAndAnnotations d s ?lb1 appName (Some w) resolved")
  from fillLabelsAndAnnotations_ok [OF assms(6), of s ?lb1 appName "Some w"] fill
  have ferr: "ferr = None" by simp
  have "Spec lb2 = Spec ?lb1"
    using fillLabelsAndAnnotations_Spec [of d s ?lb1 appName "Some w" resolved] fill by simp
  then have "Ports (Spec lb2) = Ports (Spec lbService)" by simp
  then have ex: "existingPortsOf lb2 = existingPortsOf lbService" by (rule existingPortsOf_cong)
  have "snd (fst (syncLB d s appName opts isUpdate c)) =
          snd (portsForService d lb2 app resolved (Some w))"
    using assms(1-5) fill ferr
    by (auto simp: syncLB_def Let_def split: prod.splits option.splits
             dest: portsForService_no_error)
  then show ?thesis by (simp add: portsForService_backend ex)
qed

lemma syncLB_example:
  "snd (fst (Create depsWeb labelsOnly ''blue'' optsAll (cluster0 []))) = Some webAfter"
proof -
  have a: "getApp depsWeb ''blue'' = (Some \<lparr>NamespaceName = ''default''\<rparr>, None)"
    by (simp add: depsWeb_def deps0_def)
  have f: "fetchOrNew depsWeb labelsOnly ''blue'' (Some \<lparr>NamespaceName = ''default''\<rparr>) (cluster0 [])
             = (Inr blueLB, cluster0 [])"
    by (simp add: fetchOrNew_def call_defs depsWeb_def deps0_def cluster0_def)
  have n: "\<not> snd (isSwapped depsWeb (ObjectMeta blueLB))"
    by (simp add: depsWeb_def deps0_def blueLB_def exampleService_def index_def)
  have r: "(case Some optsAll of None \<Rightarrow> OptsFromAnnotations depsWeb (ObjectMeta blueLB)
          | Some given \<Rightarrow> (given, None)) = (optsAll, None)"
    by simp
  have g: "getWebService depsWeb ''blue'' = (Some webLB, None)"
    by (simp add: depsWeb_def)
  have t: "snd (ToAnnotations depsWeb optsAll) = None"
    by (simp add: depsWeb_def deps0_def)
  have "snd (fst (Create depsWeb labelsOnly ''blue'' optsAll (cluster0 []))) =
          snd (portsForService depsWeb blueLB (Some \<lparr>NamespaceName = ''default''\<rparr>) optsAll (Some webLB))"
    unfolding Create_def by (rule syncLB_webService_eq [OF a f n r g t])
  also have "\<dots> = Some (webLB\<lparr>Spec := (Spec webLB)\<lparr>Ports :=
                 backendPortsAfter 8080 (existingPortsOf blueLB) (Ports (Spec webLB))\<rparr>\<rparr>)"
  proof -
    have p: "int32 (primaryPort optsAll) = 8080"
      by (simp add: primaryPort_optsAll int32_def)
    have fl: "fst (ParseBool (index (AdditionalOpts optsAll) exposeAllPortsOpt))"
      by (simp add: optsAll_def ParseBool_def index_def exposeAllPortsOpt_def)
    show ?thesis by (simp add: portsForService_backend p fl)
  qed
  also have "backendPortsAfter 8080 (existingPortsOf blueLB) (Ports (Spec webLB)) =
      [examplePort 80 30080, examplePort 8080 31001, examplePort 443 0]"
    by (simp add: backendPortsAfter_def nodePortAfter_def existingPortsOf_def
          webLB_def blueLB_def exampleService_def examplePort_def upt_rec)
  finally show ?thesis by (simp add: webAfter_def)
qed

lemma fillLabelsAndAnnotations_error:
  "snd (fillLabelsAndAnnotations d s svc appName webService opts) = snd (ToAnnotations d opts)"
  by (cases "ToAnnotations d opts"; cases "snd (ToAnnotations d opts)")
     (auto simp: fillLabelsAndAnnotations_def Let_def)

lemma portsForService_backend_option:
  "snd (portsForService d svc app opts webService) =
     (if fst (ParseBool (index (AdditionalOpts opts) exposeAllPortsOpt))
      then map_option
             (\<lambda>w. w\<lparr>Spec := (Spec w)\<lparr>Ports :=
                backendPortsAfter (int32 (primaryPort opts)) (existingPortsOf svc) (Ports (Spec w))\<rparr>\<rparr>)
             webService
      else webService)"
  by (cases webService) (simp_all add: portsForService_None portsForService_backend)

text \<open>
  Claim C9, as stated, fails: a \<open>Create\<close> with all ports exposed changes the node
  ports of the backend service object that it fetched.
\<close>

theorem syncLB_backend_modified_counterexample:
  "nodePortsOf (fst (getWebService depsWeb ''blue'')) = Some [31000, 31001, 31002] \<and>
   nodePortsOf (snd (fst (Create depsWeb labelsOnly ''blue'' optsAll (cluster0 [])))) =
     Some [30080, 31001, 0]"
proof -
  have before: "nodePortsOf (fst (getWebService depsWeb ''blue'')) = Some [31000, 31001, 31002]"
    by (simp add: nodePortsOf_def depsWeb_def webLB_def exampleService_def examplePort_def)
  have after: "nodePortsOf (snd (fst (Create depsWeb labelsOnly ''blue'' optsAll (cluster0 [])))) =
     Some [30080, 31001, 0]"
    by (simp add: syncLB_example nodePortsOf_def webAfter_def examplePort_def)
  from before after show ?thesis by blast
qed

text \<open>
  Claim C9, amended. Once the application and the balancer resource have been obtained
  and the options resolved, the backend service object that \<open>syncLB\<close> leaves is
  determined as follows. When the balancer resource is swapped, no backend service is
  fetched. When the fetch of the backend service fails with an error that ends the sync,
  or the options cannot be turned into annotations, the object is left as it was
  fetched. Otherwise the port resolver runs: without the option to expose all ports the
  object is left as it was fetched; with it, the port entries of the object are
  rewritten in place, every other field being kept: the node port of an entry is
  unchanged when its number is the primary port, 0 when a later entry has the same
  number, and otherwise the node port of the balancer's existing port of that number,
  or 0 when there is none. In every case the object left differs from the one fetched
  in the node ports of its port entries at most.
\<close>

theorem syncLB_backend_nodePorts:
  assumes ga: "getApp d appName = (app, None)"
    and fe: "fetchOrNew d s appName app c = (Inr lbService, c1)"
    and ro: "(case opts of None \<Rightarrow> OptsFromAnnotations d (ObjectMeta lbService)
          | Some given \<Rightarrow> (given, None)) = (resolved, None)"
  shows "snd (fst (syncLB d s appName opts isUpdate c)) =
           (if snd (isSwapped d (ObjectMeta lbService)) then None
            else if snd (getWebService d appName) \<noteq> None \<and>
                    (isUpdate \<or> \<not> isErrNoService (snd (getWebService d appName)))
              then fst (getWebService d appName)
            else if snd (ToAnnotations d resolved) \<noteq> None then fst (getWebService d appName)
            else if fst (ParseBool (index (AdditionalOpts resolved) exposeAllPortsOpt))
              then map_option
                     (\<lambda>w. w\<lparr>Spec := (Spec w)\<lparr>Ports :=
                        backendPortsAfter (int32 (primaryPort resolved))
                          (existingPortsOf lbService) (Ports (Spec w))\<rparr>\<rparr>)
                     (fst (getWebService d appName))
            else fst (getWebService d appName)) \<and>
         (\<forall>w'. snd (fst (syncLB d s appName opts isUpdate c)) = Some w' \<longrightarrow>
            (\<exists>w. fst (getWebService d appName) = Some w \<and> sameButNodePorts w w'))"
proof -
  obtain webService err where gw: "getWebService d appName = (webService, err)"
    by (cases "getWebService d appName")
  define lb1 where "lb1 = (case webService of
                         None \<Rightarrow> lbService
                       | Some w \<Rightarrow> lbService\<lparr>Spec := (Spec lbService)\<lparr>Selector := Selector (Spec w)\<rparr>\<rparr>)"
  obtain lb2 ferr where fill: "fillLabelsAndAnnotations d s lb1 appName webService resolved = (lb2, ferr)"
    by (cases "fillLabelsAndAnnotations d s lb1 appName webService resolved")
  have ferr: "ferr = snd (ToAnnotations d resolved)"
    using fillLabelsAndAnnotations_error [of d s lb1 appName webService resolved] fill by simp
  have "Spec lb2 = Spec lb1"
    using fillLabelsAndAnnotations_Spec [of d s lb1 appName webService resolved] fill by simp
  then have "Ports (Spec lb2) = Ports (Spec lbService)"
    by (simp add: lb1_def split: option.splits)
  then have ex: "existingPortsOf lb2 = existingPortsOf lbService" by (rule existingPortsOf_cong)
  have run: "snd (fst (syncLB d s appName opts isUpdate c)) =
      (if snd (isSwapped d (ObjectMeta lbService)) then None
       else if err \<noteq> None \<and> (isUpdate \<or> \<not> isErrNoService err) then webService
       else if ferr \<noteq> None then webService
       else snd (portsForService d lb2 app resolved webService))"
    using ga fe ro gw fill [unfolded lb1_def]
    by (auto simp: syncLB_def Let_def split: prod.splits option.splits
             dest: portsForService_no_error)
  have exact: "snd (fst (syncLB d s appName opts isUpdate c)) =
           (if snd (isSwapped d (ObjectMeta lbService)) then None
            else if snd (getWebService d appName) \<noteq> None \<and>
                    (isUpdate \<or> \<not> isErrNoService (snd (getWebService d appName)))
              then fst (getWebService d appName)
            else if snd (ToAnnotations d resolved) \<noteq> None then fst (getWebService d appName)
            else if fst (ParseBool (index (AdditionalOpts resolved) exposeAllPortsOpt))
              then map_option
                     (\<lambda>w. w\<lparr>Spec := (Spec w)\<lparr>Ports :=
                        backendPortsAfter (int32 (primaryPort resolved))
                          (existingPortsOf lbService) (Ports (Spec w))\<rparr>\<rparr>)
                     (fst (getWebService d appName))
            else fst (getWebService d appName))"
    unfolding run by (simp add: gw ferr portsForService_backend_option ex)
  have same: "\<forall>w'. snd (fst (syncLB d s appName opts isUpdate c)) = Some w' \<longrightarrow>
            (\<exists>w. fst (getWebService d appName) = Some w \<and> sameButNodePorts w w')"
  proof (intro allI impI)
    fix w' assume r: "snd (fst (syncLB d s appName opts isUpdate c)) = Some w'"
    from r [unfolded run] consider "webService = Some w'"
      | "snd (portsForService d lb2 app resolved webService) = Some w'"
      by (auto split: if_splits)
    then show "\<exists>w. fst (getWebService d appName) = Some w \<and> sameButNodePorts w w'"
    proof cases
      case 1
      then show ?thesis by (simp add: gw sameButNodePorts_refl)
    next
      case 2
      then obtain w where w: "webService = Some w"
        by (cases webService) (simp_all add: portsForService_None)
      with 2 have "sameButNodePorts w w'" by (simp add: sameButNodePorts_backend)
      with w show ?thesis by (simp add: gw)
    qed
  qed
  from exact same show ?thesis by blast
qed

text \<open>
  The sync of the example, a \<open>Create\<close> with all ports exposed and the primary port
  8080, on a backend service with the ports 80, 8080 and 443 and the node ports 31000,
  31001 and 31002: the port 80 takes the balancer's node port 30080, the port 8080 is
  the primary port and keeps its own, the port 443 gets 0.
\<close>

theorem syncLB_backend_nodePorts_witness:
  "snd (fst (syncLB depsWeb labelsOnly ''blue'' (Some optsAll) False (cluster0 []))) = Some webAfter \<and>
   nodePortsOf (snd (fst (syncLB depsWeb labelsOnly ''blue'' (Some optsAll) False (cluster0 [])))) =
     Some [30080, 31001, 0] \<and>
   nodePortsOf (fst (getWebService depsWeb ''blue'')) = Some [31000, 31001, 31002]"
proof -
  have a: "getApp depsWeb ''blue'' = (Some \<lparr>NamespaceName = ''default''\<rparr>, None)"
    by (simp add: depsWeb_def deps0_def)
  have f: "fetchOrNew depsWeb labelsOnly ''blue'' (Some \<lparr>NamespaceName = ''default''\<rparr>) (cluster0 [])
             = (Inr blueLB, cluster0 [])"
    by (simp add: fetchOrNew_def call_defs depsWeb_def deps0_def cluster0_def)
  have r: "(case Some optsAll of None \<Rightarrow> OptsFromAnnotations depsWeb (ObjectMeta blueLB)
          | Some given \<Rightarrow> (given, None)) = (optsAll, None)"
    by simp
  have n: "\<not> snd (isSwapped depsWeb (ObjectMeta blueLB))"
    by (simp add: depsWeb_def deps0_def blueLB_def exampleService_def index_def)
  have g: "getWebService depsWeb ''blue'' = (Some webLB, None)"
    by (simp add: depsWeb_def)
  have t: "snd (ToAnnotations depsWeb optsAll) = None"
    by (simp add: depsWeb_def deps0_def)
  have p: "int32 (primaryPort optsAll) = 8080"
    by (simp add: primaryPort_optsAll int32_def)
  have fl: "fst (ParseBool (index (AdditionalOpts optsAll) exposeAllPortsOpt))"
    by (simp add: optsAll_def ParseBool_def index_def exposeAllPortsOpt_def)
  have b: "backendPortsAfter 8080 (existingPortsOf blueLB) (Ports (Spec webLB)) =
      [examplePort 80 30080, examplePort 8080 31001, examplePort 443 0]"
    by (simp add: backendPortsAfter_def nodePortAfter_def existingPortsOf_def
          webLB_def blueLB_def exampleService_def examplePort_def upt_rec)
  from syncLB_backend_nodePorts [OF a f r, of False]
  have res: "snd (fst (syncLB depsWeb labelsOnly ''blue'' (Some optsAll) False (cluster0 []))) =
               Some webAfter"
    by (simp add: n g t p fl b webAfter_def)
  have after: "nodePortsOf (Some webAfter) = Some [30080, 31001, 0]"
    by (simp add: nodePortsOf_def webAfter_def examplePort_def)
  have before: "nodePortsOf (fst (getWebService depsWeb ''blue'')) = Some [31000, 31001, 31002]"
    by (simp add: g nodePortsOf_def webLB_def exampleService_def examplePort_def)
  from res after before show ?thesis by simp
qed

end
